theory Spec2Isabelle
  imports Main "HOL-Library.Word"
begin

unbundle bit_operations_syntax

section \<open>The PNG codec of kexlib (src/kexlib/gfx/PngImage.cc)\<close>

text \<open>
  The codec is a thin adapter around libpng. The functions of \<^verbatim>\<open>PngImage\<close>
  (\<^verbatim>\<open>detect\<close>, \<^verbatim>\<open>load\<close>, \<^verbatim>\<open>save\<close>) are embedded statement by statement.
  Everything they call that is not in the file (the C library, libpng, the
  \<^verbatim>\<open>Image\<close> and \<^verbatim>\<open>Palette\<close> classes of kexlib) is modelled next to its first use,
  with a note on where the model comes from.
\<close>

type_synonym byte = "8 word"

subsection \<open>Errors\<close>

text \<open>
  \<^verbatim>\<open>image_load_error\<close> and \<^verbatim>\<open>image_save_error\<close> are the exceptions the codec throws.
  \<open>png_error\<close> is libpng's own error exit, the \<^verbatim>\<open>longjmp\<close> to the \<^verbatim>\<open>setjmp\<close> of the
  caller. \<open>out_of_range\<close> marks an access outside the array a pointer belongs to,
  which C++ leaves undefined. \<open>ios_base_failure\<close> is \<^verbatim>\<open>std::ios_base::failure\<close>, which a
  stream throws when one of the state bits its owner asked exceptions for is set.
\<close>

datatype error =
    image_load_error string
  | image_save_error string
  | png_error
  | out_of_range
  | ios_base_failure

subsection \<open>The C++ library: \<^verbatim>\<open>std::istream\<close> and \<^verbatim>\<open>strncmp\<close>\<close>

text \<open>
  An input stream is the list of the bytes still to be read, its state bits
  (\<^verbatim>\<open>rdstate()\<close>; the empty set is \<^verbatim>\<open>goodbit\<close>) and its exception mask
  (\<^verbatim>\<open>exceptions()\<close>, empty unless the owner of the stream set one).
\<close>

datatype iobit = badbit | eofbit | failbit

record istream =
  bytes :: "byte list"
  rdstate :: "iobit set"
  exceptions :: "iobit set"

text \<open>\<^verbatim>\<open>setstate(bits)\<close> adds the bits to the state and throws when a bit of the new
  state is in the exception mask.\<close>

definition setstate :: "iobit set \<Rightarrow> istream \<Rightarrow> error + istream" where
  "setstate bits s =
     (let s' = s\<lparr>rdstate := rdstate s \<union> bits\<rparr>
      in if rdstate s' \<inter> exceptions s' \<noteq> {} then Inl ios_base_failure else Inr s')"

text \<open>
  \<^verbatim>\<open>s.read(buf, n)\<close>. On a stream that is not \<^verbatim>\<open>good()\<close> it sets \<^verbatim>\<open>failbit\<close> and
  stores nothing. Otherwise it stores the next \<open>n\<close> bytes at the start of \<open>buf\<close>;
  when the stream ends earlier it stores the bytes there are, leaves the rest of
  \<open>buf\<close> as it was, and sets \<^verbatim>\<open>eofbit\<close> and \<^verbatim>\<open>failbit\<close>. The result is the stream
  after the call and the buffer, or the exception.
\<close>

definition istream_read :: "istream \<Rightarrow> byte list \<Rightarrow> nat \<Rightarrow> error + (istream \<times> byte list)" where
  "istream_read s buf n =
     (if rdstate s \<noteq> {} then
        (case setstate {failbit} s of
           Inl err \<Rightarrow> Inl err
         | Inr s' \<Rightarrow> Inr (s', buf))
      else if n \<le> length (bytes s) then
        Inr (s\<lparr>bytes := drop n (bytes s)\<rparr>, take n (bytes s) @ drop n buf)
      else
        (case setstate {eofbit, failbit} (s\<lparr>bytes := []\<rparr>) of
           Inl err \<Rightarrow> Inl err
         | Inr s' \<Rightarrow> Inr (s', bytes s @ drop (length (bytes s)) buf)))"

text \<open>
  \<^verbatim>\<open>strncmp(a, b, n)\<close> compares at most \<open>n\<close> characters as unsigned bytes and stops
  after a NUL. The arrays are lists; reading past the end of one is \<open>None\<close>.
\<close>

fun strncmp :: "byte list \<Rightarrow> byte list \<Rightarrow> nat \<Rightarrow> int option" where
  "strncmp a b 0 = Some 0"
| "strncmp (x # a) (y # b) (Suc n) =
     (if x \<noteq> y then Some (uint x - uint y)
      else if x = 0 then Some 0
      else strncmp a b n)"
| "strncmp a b (Suc n) = None"

subsection \<open>\<^verbatim>\<open>PngImage::detect\<close>\<close>

text \<open>
  \<^verbatim>\<open>static auto magic = "\x89PNG\r\n\x1a\n";\<close> The literal is an array of the eight
  signature bytes and the terminating NUL.
\<close>

definition magic :: "byte list" where
  "magic = [0x89, 0x50, 0x4E, 0x47, 0x0D, 0x0A, 0x1A, 0x0A, 0x00]"

text \<open>
  \<^verbatim>\<open>auto\<close> makes \<^verbatim>\<open>magic\<close> a \<^verbatim>\<open>const char *\<close>, so \<^verbatim>\<open>sizeof(magic)\<close> is the size of a
  pointer of the target, not the length of the literal. It is the parameter
  \<open>sizeof_magic\<close>: 8 on an LP64 or LLP64 target, 4 on a 32-bit one.
  \<^verbatim>\<open>char buf[sizeof(magic) + 1] = {}\<close> is zero-filled. \<^verbatim>\<open>detect\<close> has no \<^verbatim>\<open>try\<close>, so
  an exception of \<^verbatim>\<open>s.read\<close> leaves it; it does not look at the state of the
  stream before or after the read.
\<close>

definition detect :: "nat \<Rightarrow> istream \<Rightarrow> error + bool" where
  "detect sizeof_magic s =
     (let buf = replicate (sizeof_magic + 1) 0
      in case istream_read s buf sizeof_magic of
           Inl err \<Rightarrow> Inl err
         | Inr (s', buf) \<Rightarrow> Inr (strncmp magic buf sizeof_magic = Some 0))"

text \<open>The PNG signature, 89 50 4E 47 0D 0A 1A 0A.\<close>

definition png_signature :: "byte list" where
  "png_signature = [0x89, 0x50, 0x4E, 0x47, 0x0D, 0x0A, 0x1A, 0x0A]"

subsection \<open>kexlib: pixel formats, palettes and images\<close>

text \<open>
  Modelled from the spec: \<^verbatim>\<open>kex/gfx/Image\<close> is included by the codec but is not among
  the sources. The spec names the pixel formats rgb, bgr, rgba, bgra and index8 and
  leaves the list open; \<open>other_format n\<close> stands for any further enumerator, \<open>n\<close>
  being the byte width its traits give a pixel.
\<close>

datatype pixel_format = index8 | rgb | rgba | bgr | bgra | other_format nat

fun bytes_per_pixel :: "pixel_format \<Rightarrow> nat" where
  "bytes_per_pixel index8 = 1"
| "bytes_per_pixel rgb = 3"
| "bytes_per_pixel rgba = 4"
| "bytes_per_pixel bgr = 3"
| "bytes_per_pixel bgra = 4"
| "bytes_per_pixel (other_format n) = n"

text \<open>
  \<^verbatim>\<open>Rgb\<close> and libpng's \<^verbatim>\<open>png_color\<close> have the fields red, green and blue; \<^verbatim>\<open>Rgba\<close>
  adds alpha.
\<close>

record Rgb =
  red :: byte
  green :: byte
  blue :: byte

record Rgba = Rgb +
  alpha :: byte

type_synonym png_color = Rgb

text \<open>
  Modelled from the spec: a \<^verbatim>\<open>Palette\<close> owns an array of colour entries and is tagged
  with the pixel format of an entry. An entry is kept as an \<^verbatim>\<open>Rgba\<close> value; in a
  palette of format rgb the alpha field is what the palette's initialisation left
  there.
\<close>

record Palette =
  pal_format :: pixel_format
  pal_entries :: "Rgba list"

text \<open>
  Modelled from the spec: an \<^verbatim>\<open>Image\<close> owns a buffer of \<open>height\<close> rows of \<open>width\<close>
  pixels in its format, a palette, and the pair of sprite offsets (two \<^verbatim>\<open>int\<close>s).
  The width and the height are natural numbers here; what PNG's header can hold
  of them is checked where libpng checks it (\<open>png_check_IHDR\<close>).
\<close>

record Image =
  width :: nat
  height :: nat
  format :: pixel_format
  buffer :: "byte list"
  palette :: Palette
  offsets :: "32 word \<times> 32 word"

text \<open>
  \<^verbatim>\<open>scanline_ptr(i)\<close> points at row \<open>i\<close> of the buffer. A pointer into the buffer is
  its index.
\<close>

definition scanline_ptr :: "Image \<Rightarrow> nat \<Rightarrow> nat" where
  "scanline_ptr im i = i * (width im * bytes_per_pixel (format im))"

datatype endian = Little | Big

text \<open>
  What a call depends on besides its arguments: whether libpng's allocations
  succeed, what the stack holds where \<^verbatim>\<open>load\<close> places its local \<^verbatim>\<open>int offsets[2]\<close>
  (the declaration has no initialiser), the palette the \<^verbatim>\<open>Image\<close> constructor gives
  an image of a format (the constructor is not among the sources), and the byte
  order of the host.
\<close>

record env =
  struct_alloc_ok :: bool
  info_alloc_ok :: bool
  stack_offsets :: "32 word \<times> 32 word"
  default_palette :: "pixel_format \<Rightarrow> Palette"
  host :: endian

text \<open>
  Modelled from the spec: \<^verbatim>\<open>Image(width, height, format)\<close> allocates the buffer and
  starts with the offsets (0, 0).
\<close>

definition new_Image :: "env \<Rightarrow> nat \<Rightarrow> nat \<Rightarrow> pixel_format \<Rightarrow> Image" where
  "new_Image e w h f =
     \<lparr>width = w, height = h, format = f,
      buffer = replicate (w * h * bytes_per_pixel f) 0,
      palette = default_palette e f,
      offsets = (0, 0)\<rparr>"

subsection \<open>libpng's handles\<close>

text \<open>
  The calls that acquire and release libpng's handles, in the order a run of
  \<^verbatim>\<open>load\<close> or \<^verbatim>\<open>save\<close> makes them. A create is recorded when it returned a handle.
  The flag of a destroy tells whether the info structure was passed with the
  struct (\<^verbatim>\<open>&infop\<close>) or not (\<^verbatim>\<open>nullptr\<close>).
\<close>

datatype event =
    png_create_read_struct
  | png_create_write_struct
  | png_create_info_struct
  | png_destroy_read_struct bool
  | png_destroy_write_struct bool

fun structs_acquired :: "event list \<Rightarrow> nat" where
  "structs_acquired [] = 0"
| "structs_acquired (png_create_read_struct # es) = Suc (structs_acquired es)"
| "structs_acquired (png_create_write_struct # es) = Suc (structs_acquired es)"
| "structs_acquired (e # es) = structs_acquired es"

fun structs_released :: "event list \<Rightarrow> nat" where
  "structs_released [] = 0"
| "structs_released (png_destroy_read_struct i # es) = Suc (structs_released es)"
| "structs_released (png_destroy_write_struct i # es) = Suc (structs_released es)"
| "structs_released (e # es) = structs_released es"

fun infos_acquired :: "event list \<Rightarrow> nat" where
  "infos_acquired [] = 0"
| "infos_acquired (png_create_info_struct # es) = Suc (infos_acquired es)"
| "infos_acquired (e # es) = infos_acquired es"

fun infos_released :: "event list \<Rightarrow> nat" where
  "infos_released [] = 0"
| "infos_released (png_destroy_read_struct i # es) =
     (if i then Suc (infos_released es) else infos_released es)"
| "infos_released (png_destroy_write_struct i # es) =
     (if i then Suc (infos_released es) else infos_released es)"
| "infos_released (e # es) = infos_released es"

text \<open>Every handle acquired during the call was released, and released once.\<close>

definition released_exactly_once :: "event list \<Rightarrow> bool" where
  "released_exactly_once es =
     (structs_released es = structs_acquired es \<and> infos_released es = infos_acquired es)"

subsection \<open>The PNG datastream as libpng reads it\<close>

text \<open>
  libpng is an external library; the codec leaves chunk parsing, CRCs and
  decompression to it. A datastream is therefore given by what libpng finds in it:
  the fields of IHDR, the PLTE entries, the tRNS data when the chunk is there, the
  chunks libpng does not know (before and after the image data), and the rows of
  the image from top to bottom, each the samples of its pixels from left to right
  (a sample is a number below \<open>2 ^ bit depth\<close>; for a paletted image the sample is
  the palette index). An unknown chunk is libpng's \<^verbatim>\<open>png_unknown_chunk\<close>: its \<open>name\<close>
  is the array \<^verbatim>\<open>png_byte name[5]\<close>, the four letters and a NUL, and its \<^verbatim>\<open>size\<close> is
  the length of its \<open>data\<close>.
\<close>

record png_unknown_chunk =
  name :: "byte list"
  data :: "byte list"

definition chunk_size :: "png_unknown_chunk \<Rightarrow> nat" where
  "chunk_size c = length (data c)"

record png_stream =
  IHDR_width :: nat
  IHDR_height :: nat
  IHDR_bit_depth :: int
  IHDR_color_type :: int
  IHDR_interlace :: int
  PLTE :: "png_color list"
  tRNS :: "byte list option"
  chunks_before_IDAT :: "png_unknown_chunk list"
  rows :: "nat list list"
  chunks_after_IDAT :: "png_unknown_chunk list"

text \<open>The constants of \<^verbatim>\<open>png.h\<close>.\<close>

definition PNG_COLOR_MASK_PALETTE :: int where "PNG_COLOR_MASK_PALETTE = 1"
definition PNG_COLOR_MASK_COLOR :: int where "PNG_COLOR_MASK_COLOR = 2"
definition PNG_COLOR_MASK_ALPHA :: int where "PNG_COLOR_MASK_ALPHA = 4"
definition PNG_COLOR_TYPE_GRAY :: int where "PNG_COLOR_TYPE_GRAY = 0"
definition PNG_COLOR_TYPE_PALETTE :: int where "PNG_COLOR_TYPE_PALETTE = 3"
definition PNG_COLOR_TYPE_RGB :: int where "PNG_COLOR_TYPE_RGB = 2"
definition PNG_COLOR_TYPE_RGB_ALPHA :: int where "PNG_COLOR_TYPE_RGB_ALPHA = 6"
definition PNG_COLOR_TYPE_GRAY_ALPHA :: int where "PNG_COLOR_TYPE_GRAY_ALPHA = 4"
definition PNG_INTERLACE_NONE :: int where "PNG_INTERLACE_NONE = 0"
definition PNG_INTERLACE_ADAM7 :: int where "PNG_INTERLACE_ADAM7 = 1"
definition PNG_UINT_31_MAX :: nat where "PNG_UINT_31_MAX = 2147483647"
definition PNG_MAX_PALETTE_LENGTH :: nat where "PNG_MAX_PALETTE_LENGTH = 256"

text \<open>
  \<^verbatim>\<open>png_check_IHDR\<close>: libpng raises its error on a header whose fields the PNG
  format does not allow. (The resource limits a libpng build can add are left out.)
\<close>

definition png_check_IHDR :: "nat \<Rightarrow> nat \<Rightarrow> int \<Rightarrow> int \<Rightarrow> int \<Rightarrow> bool" where
  "png_check_IHDR w h bit_depth color_type interlace_type =
     (w \<noteq> 0 \<and> w \<le> PNG_UINT_31_MAX \<and> h \<noteq> 0 \<and> h \<le> PNG_UINT_31_MAX
      \<and> (bit_depth = 1 \<or> bit_depth = 2 \<or> bit_depth = 4 \<or> bit_depth = 8 \<or> bit_depth = 16)
      \<and> (color_type = 0 \<or> color_type = 2 \<or> color_type = 3 \<or> color_type = 4 \<or> color_type = 6)
      \<and> \<not> (color_type = PNG_COLOR_TYPE_PALETTE \<and> bit_depth > 8)
      \<and> \<not> ((color_type = PNG_COLOR_TYPE_RGB \<or> color_type = PNG_COLOR_TYPE_GRAY_ALPHA
              \<or> color_type = PNG_COLOR_TYPE_RGB_ALPHA) \<and> bit_depth < 8)
      \<and> (interlace_type = PNG_INTERLACE_NONE \<or> interlace_type = PNG_INTERLACE_ADAM7))"

text \<open>The info structure: what \<^verbatim>\<open>png_get_IHDR\<close>, \<^verbatim>\<open>png_get_PLTE\<close>, \<^verbatim>\<open>png_get_tRNS\<close> and
  \<^verbatim>\<open>png_get_valid\<close> report.\<close>

record png_info =
  info_width :: nat
  info_height :: nat
  bit_depth :: int
  color_type :: int
  interlace_type :: int
  info_palette :: "png_color list"
  trans_alpha :: "byte list"
  num_trans :: nat
  valid_tRNS :: bool

text \<open>
  \<^verbatim>\<open>png_handle_tRNS\<close>: for a grey or RGB image the chunk is one colour key, for a
  paletted image it is a table of alpha values no longer than the palette; a chunk
  of any other shape, or one in an image that has an alpha channel, is dropped with
  a warning. The result is the alpha table and \<^verbatim>\<open>num_trans\<close>.
\<close>

definition png_handle_tRNS :: "png_stream \<Rightarrow> (byte list \<times> nat) option" where
  "png_handle_tRNS s =
     (case tRNS s of
        None \<Rightarrow> None
      | Some t \<Rightarrow>
          if IHDR_color_type s = PNG_COLOR_TYPE_GRAY
            then (if length t = 2 then Some ([], 1) else None)
          else if IHDR_color_type s = PNG_COLOR_TYPE_RGB
            then (if length t = 6 then Some ([], 1) else None)
          else if IHDR_color_type s = PNG_COLOR_TYPE_PALETTE
            then (if length t > length (PLTE s) \<or> length t > PNG_MAX_PALETTE_LENGTH \<or> length t = 0
                  then None else Some (t, length t))
          else None)"

subsection \<open>The user chunk callback of \<^verbatim>\<open>load\<close>\<close>

text \<open>
  \<^verbatim>\<open>reinterpret_cast<int*>(chunk->data)[i]\<close> reads four bytes of the chunk as an
  \<^verbatim>\<open>int\<close> in the byte order of the host. The callback reads \<open>i = 0\<close> and \<open>i = 1\<close>
  after it has checked that the chunk has at least 8 bytes.
\<close>

definition le32 :: "byte \<Rightarrow> byte \<Rightarrow> byte \<Rightarrow> byte \<Rightarrow> 32 word" where
  "le32 b0 b1 b2 b3 =
     ucast b0 OR push_bit 8 (ucast b1) OR push_bit 16 (ucast b2) OR push_bit 24 (ucast b3)"

definition be32 :: "byte \<Rightarrow> byte \<Rightarrow> byte \<Rightarrow> byte \<Rightarrow> 32 word" where
  "be32 b0 b1 b2 b3 =
     push_bit 24 (ucast b0) OR push_bit 16 (ucast b1) OR push_bit 8 (ucast b2) OR ucast b3"

definition int_at :: "endian \<Rightarrow> byte list \<Rightarrow> nat \<Rightarrow> 32 word" where
  "int_at e d i =
     (let b0 = d ! (4 * i); b1 = d ! (4 * i + 1); b2 = d ! (4 * i + 2); b3 = d ! (4 * i + 3)
      in case e of Little \<Rightarrow> le32 b0 b1 b2 b3 | Big \<Rightarrow> be32 b0 b1 b2 b3)"

text \<open>
  Modelled from the spec: \<^verbatim>\<open>kex::cpu::swap_be\<close> is not among the sources. It takes a
  big-endian value to the byte order of the host: it reverses the four bytes on a
  little-endian host and changes nothing on a big-endian one.
\<close>

definition bswap32 :: "32 word \<Rightarrow> 32 word" where
  "bswap32 w =
     be32 (ucast w) (ucast (drop_bit 8 w)) (ucast (drop_bit 16 w)) (ucast (drop_bit 24 w))"

definition swap_be :: "endian \<Rightarrow> 32 word \<Rightarrow> 32 word" where
  "swap_be e w = (case e of Little \<Rightarrow> bswap32 w | Big \<Rightarrow> w)"

text \<open>The literal \<^verbatim>\<open>"grAb"\<close> with its terminating NUL.\<close>

definition grAb :: "byte list" where
  "grAb = [0x67, 0x72, 0x41, 0x62, 0x00]"

text \<open>
  \<^verbatim>\<open>chunkFn\<close>: the user pointer is the array \<^verbatim>\<open>offsets\<close> of \<^verbatim>\<open>load\<close>; the callback gets
  its content and returns its return value with the new content.
\<close>

definition chunkFn ::
  "endian \<Rightarrow> 32 word \<times> 32 word \<Rightarrow> png_unknown_chunk \<Rightarrow> int \<times> (32 word \<times> 32 word)" where
  "chunkFn e offs chunk =
     (if strncmp (name chunk) grAb 4 = Some 0 \<and> chunk_size chunk \<ge> 8
      then (1, (swap_be e (int_at e (data chunk) 0), swap_be e (int_at e (data chunk) 1)))
      else (0, offs))"

subsection \<open>libpng: reading\<close>

text \<open>
  \<^verbatim>\<open>png_handle_unknown\<close>: libpng passes every chunk it does not know to the user
  callback. A negative return value is an error; on 0 libpng applies its default,
  which skips an ancillary chunk and raises an error on a critical one (a name
  whose first letter is upper case, bit 5 clear).
\<close>

definition png_chunk_critical :: "png_unknown_chunk \<Rightarrow> bool" where
  "png_chunk_critical c = (case name c of [] \<Rightarrow> False | b # _ \<Rightarrow> \<not> bit b 5)"

fun png_handle_unknown ::
  "('u \<Rightarrow> png_unknown_chunk \<Rightarrow> int \<times> 'u) \<Rightarrow> 'u \<Rightarrow> png_unknown_chunk list \<Rightarrow> error + 'u" where
  "png_handle_unknown fn u [] = Inr u"
| "png_handle_unknown fn u (c # cs) =
     (case fn u c of (ret, u') \<Rightarrow>
        if ret < 0 then Inl png_error
        else if ret = 0 \<and> png_chunk_critical c then Inl png_error
        else png_handle_unknown fn u' cs)"

text \<open>
  \<^verbatim>\<open>png_read_info\<close> reads the datastream up to the image data: the header (checked
  by \<^verbatim>\<open>png_check_IHDR\<close>), the unknown chunks in front of the image data, PLTE (a
  paletted image without one, or with more than 256 entries, is an error) and
  tRNS. \<open>stream_info\<close> is the info structure it fills.
\<close>

definition stream_info :: "png_stream \<Rightarrow> png_info" where
  "stream_info s =
     \<lparr>info_width = IHDR_width s, info_height = IHDR_height s,
      bit_depth = IHDR_bit_depth s, color_type = IHDR_color_type s,
      interlace_type = IHDR_interlace s,
      info_palette = PLTE s,
      trans_alpha = (case png_handle_tRNS s of None \<Rightarrow> [] | Some (a, n) \<Rightarrow> a),
      num_trans = (case png_handle_tRNS s of None \<Rightarrow> 0 | Some (a, n) \<Rightarrow> n),
      valid_tRNS = (png_handle_tRNS s \<noteq> None)\<rparr>"

definition png_read_info ::
  "('u \<Rightarrow> png_unknown_chunk \<Rightarrow> int \<times> 'u) \<Rightarrow> 'u \<Rightarrow> png_stream \<Rightarrow> error + ('u \<times> png_info)" where
  "png_read_info fn u s =
     (if \<not> png_check_IHDR (IHDR_width s) (IHDR_height s) (IHDR_bit_depth s)
            (IHDR_color_type s) (IHDR_interlace s)
      then Inl png_error
      else case png_handle_unknown fn u (chunks_before_IDAT s) of
        Inl e \<Rightarrow> Inl e
      | Inr u' \<Rightarrow>
          if IHDR_color_type s = PNG_COLOR_TYPE_PALETTE
             \<and> (PLTE s = [] \<or> length (PLTE s) > PNG_MAX_PALETTE_LENGTH)
          then Inl png_error
          else Inr (u', stream_info s))"

text \<open>
  The transformations \<^verbatim>\<open>load\<close> can request. Each \<^verbatim>\<open>png_set_...\<close> call sets flags
  of the read struct; they take effect in \<^verbatim>\<open>png_read_update_info\<close> and in the rows
  that \<^verbatim>\<open>png_read_image\<close> delivers.
\<close>

record transformations =
  PNG_16_TO_8 :: bool
  PNG_PACK :: bool
  PNG_INTERLACE :: bool
  PNG_EXPAND :: bool
  PNG_EXPAND_tRNS :: bool
  PNG_GRAY_TO_RGB :: bool

definition no_transformations :: transformations where
  "no_transformations =
     \<lparr>PNG_16_TO_8 = False, PNG_PACK = False, PNG_INTERLACE = False,
      PNG_EXPAND = False, PNG_EXPAND_tRNS = False, PNG_GRAY_TO_RGB = False\<rparr>"

definition png_set_strip_16 :: "transformations \<Rightarrow> transformations" where
  "png_set_strip_16 t = t\<lparr>PNG_16_TO_8 := True\<rparr>"

text \<open>\<^verbatim>\<open>png_set_packing\<close> sets its flag when the bit depth of the image is below 8.\<close>

definition png_set_packing :: "png_info \<Rightarrow> transformations \<Rightarrow> transformations" where
  "png_set_packing i t = (if bit_depth i < 8 then t\<lparr>PNG_PACK := True\<rparr> else t)"

definition png_set_interlace_handling :: "png_info \<Rightarrow> transformations \<Rightarrow> transformations" where
  "png_set_interlace_handling i t =
     (if interlace_type i \<noteq> PNG_INTERLACE_NONE then t\<lparr>PNG_INTERLACE := True\<rparr> else t)"

text \<open>
  \<^verbatim>\<open>png_set_expand\<close>: ``expand paletted images to RGB, expand grayscale images of
  less than 8-bit depth to 8-bit depth, and expand tRNS chunks to alpha channels''
  (libpng manual). It does not make a grey image RGB.
\<close>

definition png_set_expand :: "transformations \<Rightarrow> transformations" where
  "png_set_expand t = t\<lparr>PNG_EXPAND := True, PNG_EXPAND_tRNS := True\<rparr>"

text \<open>\<^verbatim>\<open>png_set_gray_to_rgb\<close> also asks for grey samples of 8 bits
  (\<^verbatim>\<open>png_set_expand_gray_1_2_4_to_8\<close>, which sets \<^verbatim>\<open>PNG_EXPAND\<close>).\<close>

definition png_set_gray_to_rgb :: "transformations \<Rightarrow> transformations" where
  "png_set_gray_to_rgb t = t\<lparr>PNG_EXPAND := True, PNG_GRAY_TO_RGB := True\<rparr>"

text \<open>
  \<^verbatim>\<open>png_read_update_info\<close> rewrites the info structure to describe the rows after
  the transformations (libpng's \<^verbatim>\<open>png_read_transform_info\<close>, for the flags above, in
  its order): expansion, 16 to 8 bits, grey to RGB, unpacking.
\<close>

definition png_read_update_info :: "transformations \<Rightarrow> png_info \<Rightarrow> png_info" where
  "png_read_update_info t i =
     (let i = (if PNG_EXPAND t then
                 (if color_type i = PNG_COLOR_TYPE_PALETTE
                  then i\<lparr>color_type := (if num_trans i > 0 then PNG_COLOR_TYPE_RGB_ALPHA
                                         else PNG_COLOR_TYPE_RGB),
                         bit_depth := 8, num_trans := 0\<rparr>
                  else i\<lparr>color_type := (if num_trans i \<noteq> 0 \<and> PNG_EXPAND_tRNS t
                                         then color_type i OR PNG_COLOR_MASK_ALPHA
                                         else color_type i),
                         bit_depth := (if bit_depth i < 8 then 8 else bit_depth i),
                         num_trans := 0\<rparr>)
               else i);
          i = (if bit_depth i = 16 \<and> PNG_16_TO_8 t then i\<lparr>bit_depth := 8\<rparr> else i);
          i = (if PNG_GRAY_TO_RGB t
               then i\<lparr>color_type := color_type i OR PNG_COLOR_MASK_COLOR\<rparr> else i);
          i = (if PNG_PACK t \<and> bit_depth i < 8 then i\<lparr>bit_depth := 8\<rparr> else i)
      in i)"

text \<open>The number of samples of a pixel.\<close>

definition png_channels :: "int \<Rightarrow> nat" where
  "png_channels ct =
     (if ct = PNG_COLOR_TYPE_PALETTE then 1
      else if ct AND PNG_COLOR_MASK_COLOR \<noteq> 0 then 3 else 1)
     + (if ct AND PNG_COLOR_MASK_ALPHA \<noteq> 0 then 1 else 0)"

text \<open>
  The samples of a row after the transformations. Expansion scales a grey sample
  of fewer than 8 bits to 8 bits; stripping keeps the high byte of a 16-bit
  sample; unpacking gives every sample a byte of its own and leaves its value;
  grey to RGB repeats the grey sample three times and keeps the alpha sample.
  How \<^verbatim>\<open>PNG_EXPAND_tRNS\<close> turns a colour key into an alpha sample is left out:
  \<^verbatim>\<open>load\<close> requests it for \<^verbatim>\<open>PNG_COLOR_TYPE_GRAY\<close> only, and then throws before it
  reads a row (lemma \<open>load_GRAY_raises\<close>).
\<close>

fun png_do_gray_to_rgb :: "bool \<Rightarrow> nat list \<Rightarrow> nat list" where
  "png_do_gray_to_rgb False (g # xs) = g # g # g # png_do_gray_to_rgb False xs"
| "png_do_gray_to_rgb True (g # a # xs) = g # g # g # a # png_do_gray_to_rgb True xs"
| "png_do_gray_to_rgb has_alpha xs = []"

definition png_do_read_transformations :: "transformations \<Rightarrow> png_info \<Rightarrow> nat list \<Rightarrow> byte list" where
  "png_do_read_transformations t i row =
     (let row = (if PNG_EXPAND t \<and> color_type i = PNG_COLOR_TYPE_GRAY \<and> bit_depth i < 8
                 then map (\<lambda>v. v * (255 div (2 ^ nat (bit_depth i) - 1))) row else row);
          row = (if PNG_16_TO_8 t \<and> bit_depth i = 16 then map (\<lambda>v. v div 256) row else row);
          row = (if PNG_GRAY_TO_RGB t \<and> color_type i AND PNG_COLOR_MASK_COLOR = 0
                 then png_do_gray_to_rgb (color_type i AND PNG_COLOR_MASK_ALPHA \<noteq> 0) row
                 else row)
      in map of_nat row)"

text \<open>
  The rows of a datastream fit its header when there are \<open>height\<close> of them, each
  with \<open>width\<close> pixels of the header's colour type and every sample within the bit
  depth. libpng raises its error on image data that does not.
\<close>

definition rows_fit :: "nat \<Rightarrow> nat \<Rightarrow> int \<Rightarrow> int \<Rightarrow> nat list list \<Rightarrow> bool" where
  "rows_fit w h ct bd rs =
     (length rs = h
      \<and> list_all (\<lambda>r. length r = w * png_channels ct \<and> list_all (\<lambda>v. v < 2 ^ nat bd) r) rs)"

text \<open>
  Storing rows through row pointers: row \<open>k\<close> goes to the buffer at the index the
  \<open>k\<close>-th pointer holds. A row that does not fit into the buffer there would be
  written outside it.
\<close>

fun store_rows :: "byte list \<Rightarrow> nat list \<Rightarrow> byte list list \<Rightarrow> error + byte list" where
  "store_rows buf (p # ps) (r # rs) =
     (if p + length r \<le> length buf
      then store_rows (take p buf @ r @ drop (p + length r) buf) ps rs
      else Inl out_of_range)"
| "store_rows buf ps [] = Inr buf"
| "store_rows buf [] (r # rs) = Inl out_of_range"

text \<open>
  \<^verbatim>\<open>png_read_image(png_ptr, scanlines)\<close> decodes the image and stores row \<open>k\<close>,
  transformed, at \<^verbatim>\<open>scanlines[k]\<close>. The first argument is the info structure as
  \<^verbatim>\<open>png_read_info\<close> left it.
\<close>

definition png_read_image ::
  "transformations \<Rightarrow> png_info \<Rightarrow> png_stream \<Rightarrow> nat list \<Rightarrow> byte list \<Rightarrow> error + byte list" where
  "png_read_image t i s scanlines buf =
     (if \<not> rows_fit (info_width i) (info_height i) (color_type i) (bit_depth i) (rows s)
      then Inl png_error
      else store_rows buf scanlines (map (png_do_read_transformations t i) (rows s)))"

text \<open>\<^verbatim>\<open>png_read_end\<close> reads the chunks after the image data.\<close>

definition png_read_end ::
  "('u \<Rightarrow> png_unknown_chunk \<Rightarrow> int \<times> 'u) \<Rightarrow> 'u \<Rightarrow> png_stream \<Rightarrow> error + 'u" where
  "png_read_end fn u s = png_handle_unknown fn u (chunks_after_IDAT s)"

subsection \<open>\<^verbatim>\<open>PngImage::load\<close>\<close>

text \<open>\<^verbatim>\<open>fmt::format("{}", n)\<close> for an \<^verbatim>\<open>int\<close>: the decimal digits, with a minus sign
  for a negative number.\<close>

definition digit_char :: "nat \<Rightarrow> char" where
  "digit_char d = ''0123456789'' ! d"

fun fmt_nat :: "nat \<Rightarrow> string" where
  "fmt_nat n =
     (if n < 10 then [digit_char n]
      else fmt_nat (n div 10) @ [digit_char (n mod 10)])"

definition fmt_int :: "int \<Rightarrow> string" where
  "fmt_int i = (if i < 0 then CHR ''-'' # fmt_nat (nat (- i)) else fmt_nat (nat i))"

text \<open>The \<^verbatim>\<open>switch (colorType)\<close> that chooses the pixel format (lines 108 to 131).\<close>

definition load_format :: "int \<Rightarrow> int \<Rightarrow> error + pixel_format" where
  "load_format colorType bitDepth =
     (if colorType = PNG_COLOR_TYPE_RGB then Inr rgb
      else if colorType = PNG_COLOR_TYPE_RGB_ALPHA then Inr rgba
      else if colorType = PNG_COLOR_TYPE_PALETTE then
        (if bitDepth = 8 then Inr index8
         else Inl (image_load_error (''Invalid PNG bit depth: '' @ fmt_int bitDepth)))
      else Inl (image_load_error (''Unknown PNG image color type: '' @ fmt_int colorType)))"

text \<open>
  The palette built when the image has a tRNS chunk (lines 142 to 161):
  \<^verbatim>\<open>palNum\<close> entries, entry \<open>k\<close> with the colour of \<^verbatim>\<open>colors[k]\<close> and the alpha
  \<^verbatim>\<open>k < transNum ? alpha[k] : 0xff\<close>.
\<close>

definition tRNS_palette :: "png_info \<Rightarrow> Palette" where
  "tRNS_palette i =
     (let alphas = trans_alpha i; transNum = num_trans i;
          colors = info_palette i; palNum = length (info_palette i);
          paldata = map (\<lambda>k. \<lparr>red = red (colors ! k), green = green (colors ! k),
                               blue = blue (colors ! k),
                               alpha = (if k < transNum then alphas ! k else 0xff)\<rparr>) [0..<palNum]
      in \<lparr>pal_format = rgba, pal_entries = paldata\<rparr>)"

text \<open>
  The loop over the palette of the new image when there is no tRNS chunk (lines
  167 to 173). The pointer \<^verbatim>\<open>pal\<close> is the array of \<^verbatim>\<open>png_get_PLTE\<close> with an index,
  advanced once for every entry \<open>c\<close> of the image's palette; the loop has no test
  against \<^verbatim>\<open>numPal\<close>, so \<^verbatim>\<open>*pal++\<close> can read beyond the array.
\<close>

fun copy_PLTE :: "png_color list \<Rightarrow> nat \<Rightarrow> Rgba list \<Rightarrow> error + Rgba list" where
  "copy_PLTE pal k [] = Inr []"
| "copy_PLTE pal k (c # cs) =
     (if k < length pal
      then (let p = pal ! k
            in case copy_PLTE pal (Suc k) cs of
                 Inl err \<Rightarrow> Inl err
               | Inr cs' \<Rightarrow> Inr (c\<lparr>red := red p, green := green p, blue := blue p\<rparr> # cs'))
      else Inl out_of_range)"

text \<open>The statement \<^verbatim>\<open>if (png_get_valid(png_ptr, infop, PNG_INFO_tRNS)) ... else ...\<close>
  (lines 140 to 174).\<close>

definition load_palette :: "png_info \<Rightarrow> Image \<Rightarrow> error + Image" where
  "load_palette i retval =
     (if valid_tRNS i then Inr (retval\<lparr>palette := tRNS_palette i\<rparr>)
      else case copy_PLTE (info_palette i) 0 (pal_entries (palette retval)) of
             Inl err \<Rightarrow> Inl err
           | Inr es \<Rightarrow> Inr (retval\<lparr>palette := (palette retval)\<lparr>pal_entries := es\<rparr>\<rparr>))"

text \<open>
  The transformations \<^verbatim>\<open>load\<close> requests (lines 95 to 103); \<open>i0\<close> is the info
  structure after \<^verbatim>\<open>png_read_info\<close>, from which \<^verbatim>\<open>png_get_IHDR\<close> takes \<^verbatim>\<open>colorType\<close>.
\<close>

definition load_transformations :: "png_info \<Rightarrow> transformations" where
  "load_transformations i0 =
     (let colorType = color_type i0;
          t = png_set_strip_16 no_transformations;
          t = png_set_packing i0 t;
          t = png_set_interlace_handling i0 t;
          t = (if colorType = PNG_COLOR_TYPE_GRAY then png_set_expand t else t);
          t = (if colorType = PNG_COLOR_TYPE_GRAY_ALPHA then png_set_gray_to_rgb t else t)
      in t)"

text \<open>
  The body of \<^verbatim>\<open>load\<close> after \<^verbatim>\<open>setjmp\<close> (lines 68 to 182). \<open>Inl png_error\<close> is a
  \<^verbatim>\<open>longjmp\<close> out of a libpng call. \<open>offsets0\<close> is the local array \<^verbatim>\<open>offsets\<close> as
  declared, \<open>offsets1\<close> after \<^verbatim>\<open>png_read_info\<close>; \<open>i0\<close> and \<open>i1\<close> are the info structure
  before and after \<^verbatim>\<open>png_read_update_info\<close>.
\<close>

definition load_decode :: "env \<Rightarrow> png_stream \<Rightarrow> error + Image" where
  "load_decode e s =
     (let offsets0 = stack_offsets e
      in (case png_read_info (chunkFn (host e)) offsets0 s of
            Inl err \<Rightarrow> Inl err
          | Inr (offsets1, i0) \<Rightarrow>
             (let t = load_transformations i0;
                  i1 = png_read_update_info t i0;
                  w = info_width i1; h = info_height i1;
                  bitDepth = bit_depth i1; colorType = color_type i1
              in (case load_format colorType bitDepth of
                    Inl err \<Rightarrow> Inl err
                  | Inr fmt \<Rightarrow>
                     (let retval = new_Image e w h fmt;
                          scanlines = map (scanline_ptr retval) [0..<h]
                      in (case (if colorType = PNG_COLOR_TYPE_PALETTE
                                then load_palette i1 retval else Inr retval) of
                            Inl err \<Rightarrow> Inl err
                          | Inr retval \<Rightarrow>
                             (let retval = retval\<lparr>offsets := offsets1\<rparr>
                              in (case png_read_image t i0 s scanlines (buffer retval) of
                                    Inl err \<Rightarrow> Inl err
                                  | Inr buf \<Rightarrow>
                                     (case png_read_end (chunkFn (host e)) offsets1 s of
                                        Inl err \<Rightarrow> Inl err
                                      | Inr offsets2 \<Rightarrow> Inr (retval\<lparr>buffer := buf\<rparr>))))))))))"

text \<open>
  \<^verbatim>\<open>load\<close>: the result and the calls that acquired and released libpng's handles.
  The only \<^verbatim>\<open>png_destroy_read_struct\<close> calls are the one after a failed
  \<^verbatim>\<open>png_create_info_struct\<close> and the one in the \<^verbatim>\<open>setjmp\<close> branch.
\<close>

definition load :: "env \<Rightarrow> png_stream \<Rightarrow> (error + Image) \<times> event list" where
  "load e s =
     (if \<not> struct_alloc_ok e
      then (Inl (image_load_error ''Failed to create PNG read struct''), [])
      else if \<not> info_alloc_ok e
      then (Inl (image_load_error ''Failed to create PNG info struct''),
            [png_create_read_struct, png_destroy_read_struct False])
      else case load_decode e s of
             Inl png_error \<Rightarrow>
               (Inl (image_load_error ''An error occurred in libpng''),
                [png_create_read_struct, png_create_info_struct, png_destroy_read_struct True])
           | Inl err \<Rightarrow> (Inl err, [png_create_read_struct, png_create_info_struct])
           | Inr retval \<Rightarrow> (Inr retval, [png_create_read_struct, png_create_info_struct]))"

subsection \<open>libpng: writing\<close>

text \<open>\<^verbatim>\<open>png_set_IHDR\<close> checks the header fields as \<^verbatim>\<open>png_read_info\<close> does.\<close>

definition png_set_IHDR :: "nat \<Rightarrow> nat \<Rightarrow> int \<Rightarrow> int \<Rightarrow> int \<Rightarrow> error + png_info" where
  "png_set_IHDR w h bd ct il =
     (if \<not> png_check_IHDR w h bd ct il then Inl png_error
      else Inr \<lparr>info_width = w, info_height = h, bit_depth = bd, color_type = ct,
                interlace_type = il, info_palette = [], trans_alpha = [], num_trans = 0,
                valid_tRNS = False\<rparr>)"

text \<open>Reading rows through row pointers: \<open>n\<close> bytes from the index each pointer
  holds.\<close>

fun fetch_rows :: "byte list \<Rightarrow> nat \<Rightarrow> nat list \<Rightarrow> error + byte list list" where
  "fetch_rows buf n [] = Inr []"
| "fetch_rows buf n (p # ps) =
     (if p + n \<le> length buf
      then (case fetch_rows buf n ps of
              Inl err \<Rightarrow> Inl err
            | Inr rs \<Rightarrow> Inr (take n (drop p buf) # rs))
      else Inl out_of_range)"

text \<open>
  \<^verbatim>\<open>png_write_image(writep, scanlines)\<close> takes the bytes of row \<open>k\<close> from
  \<^verbatim>\<open>scanlines[k]\<close>: at the bit depth 8 that \<^verbatim>\<open>save\<close> sets, one byte for every sample.
  With \<^verbatim>\<open>png_write_info\<close> before and \<^verbatim>\<open>png_write_end\<close> after it, the datastream
  written has the header of \<^verbatim>\<open>png_set_IHDR\<close>, these rows, and no chunk that was
  not asked for.
\<close>

definition png_write_image :: "png_info \<Rightarrow> nat list \<Rightarrow> byte list \<Rightarrow> error + png_stream" where
  "png_write_image i scanlines buf =
     (case fetch_rows buf (info_width i * png_channels (color_type i)) scanlines of
        Inl err \<Rightarrow> Inl err
      | Inr rs \<Rightarrow>
          Inr \<lparr>IHDR_width = info_width i, IHDR_height = info_height i,
               IHDR_bit_depth = bit_depth i, IHDR_color_type = color_type i,
               IHDR_interlace = interlace_type i,
               PLTE = [], tRNS = None, chunks_before_IDAT = [],
               rows = map (map unat) rs, chunks_after_IDAT = []\<rparr>)"

subsection \<open>\<^verbatim>\<open>PngImage::save\<close>\<close>

text \<open>The \<^verbatim>\<open>switch (image.format())\<close> (lines 215 to 231).\<close>

fun save_format :: "pixel_format \<Rightarrow> error + int" where
  "save_format rgb = Inr PNG_COLOR_TYPE_RGB"
| "save_format bgr = Inr PNG_COLOR_TYPE_RGB"
| "save_format rgba = Inr PNG_COLOR_TYPE_RGB_ALPHA"
| "save_format bgra = Inr PNG_COLOR_TYPE_RGB_ALPHA"
| "save_format f = Inl (image_save_error ''Saving image with incompatible pixel format'')"

text \<open>The body of \<^verbatim>\<open>save\<close> after \<^verbatim>\<open>setjmp\<close>, up to \<^verbatim>\<open>png_write_end\<close> (lines 204 to
  242); \<open>im\<close> is the image passed in. The result is the datastream written to the
  output stream.\<close>

definition save_encode :: "Image \<Rightarrow> error + png_stream" where
  "save_encode im =
     (case save_format (format im) of
        Inl err \<Rightarrow> Inl err
      | Inr fmt \<Rightarrow>
          (case png_set_IHDR (width im) (height im) 8 fmt PNG_INTERLACE_NONE of
             Inl err \<Rightarrow> Inl err
           | Inr i \<Rightarrow>
               let scanlines = map (scanline_ptr im) [0..<height im]
               in png_write_image i scanlines (buffer im)))"

text \<open>
  \<^verbatim>\<open>save\<close>: the datastream written, or the error, and the calls that acquired and
  released libpng's handles. \<^verbatim>\<open>png_destroy_write_struct\<close> is called after a failed
  \<^verbatim>\<open>png_create_info_struct\<close>, in the \<^verbatim>\<open>setjmp\<close> branch and at the end.
\<close>

definition save :: "env \<Rightarrow> Image \<Rightarrow> (error + png_stream) \<times> event list" where
  "save e im =
     (if \<not> struct_alloc_ok e
      then (Inl (image_save_error ''Failed getting png_structp''), [])
      else if \<not> info_alloc_ok e
      then (Inl (image_save_error ''Failed getting png_infop''),
            [png_create_write_struct, png_destroy_write_struct False])
      else case save_encode im of
             Inl png_error \<Rightarrow>
               (Inl (image_save_error ''Error occurred in libpng''),
                [png_create_write_struct, png_create_info_struct, png_destroy_write_struct True])
           | Inl err \<Rightarrow> (Inl err, [png_create_write_struct, png_create_info_struct])
           | Inr s \<Rightarrow>
               (Inr s,
                [png_create_write_struct, png_create_info_struct, png_destroy_write_struct True]))"

subsection \<open>Valid datastreams and images\<close>

text \<open>
  A valid datastream, as far as this model sees it: the header passes
  \<^verbatim>\<open>png_check_IHDR\<close>, no unknown chunk is critical, a paletted image has a PLTE
  chunk of at most 256 entries, a tRNS chunk (if there is one) has the shape its
  colour type asks for, and the rows fit the header. libpng reads such a
  datastream to its end without an error.
\<close>

definition png_valid :: "png_stream \<Rightarrow> bool" where
  "png_valid s =
     (png_check_IHDR (IHDR_width s) (IHDR_height s) (IHDR_bit_depth s)
        (IHDR_color_type s) (IHDR_interlace s)
      \<and> list_all (\<lambda>c. \<not> png_chunk_critical c) (chunks_before_IDAT s)
      \<and> list_all (\<lambda>c. \<not> png_chunk_critical c) (chunks_after_IDAT s)
      \<and> (if IHDR_color_type s = PNG_COLOR_TYPE_PALETTE
         then PLTE s \<noteq> [] \<and> length (PLTE s) \<le> PNG_MAX_PALETTE_LENGTH else True)
      \<and> (case tRNS s of None \<Rightarrow> True | Some t \<Rightarrow> png_handle_tRNS s \<noteq> None)
      \<and> rows_fit (IHDR_width s) (IHDR_height s) (IHDR_color_type s) (IHDR_bit_depth s) (rows s))"

text \<open>
  A valid, non-empty image: at least one row and one column, dimensions that a PNG
  header can hold, and a buffer of \<open>height\<close> rows of \<open>width\<close> pixels.
\<close>

definition valid_image :: "Image \<Rightarrow> bool" where
  "valid_image im =
     (1 \<le> width im \<and> width im \<le> PNG_UINT_31_MAX
      \<and> 1 \<le> height im \<and> height im \<le> PNG_UINT_31_MAX
      \<and> length (buffer im) = width im * height im * bytes_per_pixel (format im))"

subsection \<open>Example inputs\<close>

text \<open>
  An environment in which the allocations succeed, the stack holds (7, 9) where
  \<^verbatim>\<open>offsets\<close> is placed, a new image gets a palette of two opaque black entries, and
  the host is little-endian.
\<close>

definition example_env :: env where
  "example_env =
     \<lparr>struct_alloc_ok = True, info_alloc_ok = True, stack_offsets = (7, 9),
      default_palette = (\<lambda>f. \<lparr>pal_format = rgb,
         pal_entries = [\<lparr>red = 0, green = 0, blue = 0, alpha = 0xFF\<rparr>,
                        \<lparr>red = 0, green = 0, blue = 0, alpha = 0xFF\<rparr>]\<rparr>),
      host = Little\<rparr>"

text \<open>A 2 by 2 RGB image of 8 bits per sample, with no chunk beyond the image.\<close>

definition example_rgb :: png_stream where
  "example_rgb =
     \<lparr>IHDR_width = 2, IHDR_height = 2, IHDR_bit_depth = 8,
      IHDR_color_type = PNG_COLOR_TYPE_RGB, IHDR_interlace = PNG_INTERLACE_NONE,
      PLTE = [], tRNS = None, chunks_before_IDAT = [],
      rows = [[1, 2, 3, 4, 5, 6], [7, 8, 9, 10, 11, 12]], chunks_after_IDAT = []\<rparr>"

text \<open>A grAb chunk with the big-endian values 5 and -3.\<close>

definition example_grAb :: png_unknown_chunk where
  "example_grAb =
     \<lparr>name = [0x67, 0x72, 0x41, 0x62, 0x00],
      data = [0x00, 0x00, 0x00, 0x05, 0xFF, 0xFF, 0xFF, 0xFD]\<rparr>"

text \<open>A single grey pixel of value 200, 8 bits, no alpha; and the same with an
  alpha sample of 17.\<close>

definition example_gray :: png_stream where
  "example_gray =
     \<lparr>IHDR_width = 1, IHDR_height = 1, IHDR_bit_depth = 8,
      IHDR_color_type = PNG_COLOR_TYPE_GRAY, IHDR_interlace = PNG_INTERLACE_NONE,
      PLTE = [], tRNS = None, chunks_before_IDAT = [],
      rows = [[200]], chunks_after_IDAT = []\<rparr>"

definition example_gray_alpha :: png_stream where
  "example_gray_alpha =
     \<lparr>IHDR_width = 1, IHDR_height = 1, IHDR_bit_depth = 8,
      IHDR_color_type = PNG_COLOR_TYPE_GRAY_ALPHA, IHDR_interlace = PNG_INTERLACE_NONE,
      PLTE = [], tRNS = None, chunks_before_IDAT = [],
      rows = [[200, 17]], chunks_after_IDAT = []\<rparr>"

text \<open>Paletted images of two pixels in one row: one of bit depth 4 with two palette
  entries; one of bit depth 8 with three palette entries and a tRNS chunk for the
  first of them; one of bit depth 8 with a single palette entry.\<close>

definition example_pal4 :: png_stream where
  "example_pal4 =
     \<lparr>IHDR_width = 2, IHDR_height = 1, IHDR_bit_depth = 4,
      IHDR_color_type = PNG_COLOR_TYPE_PALETTE, IHDR_interlace = PNG_INTERLACE_NONE,
      PLTE = [\<lparr>red = 1, green = 2, blue = 3\<rparr>, \<lparr>red = 4, green = 5, blue = 6\<rparr>],
      tRNS = None, chunks_before_IDAT = [],
      rows = [[1, 0]], chunks_after_IDAT = []\<rparr>"

definition example_pal8_tRNS :: png_stream where
  "example_pal8_tRNS =
     \<lparr>IHDR_width = 2, IHDR_height = 1, IHDR_bit_depth = 8,
      IHDR_color_type = PNG_COLOR_TYPE_PALETTE, IHDR_interlace = PNG_INTERLACE_NONE,
      PLTE = [\<lparr>red = 1, green = 2, blue = 3\<rparr>, \<lparr>red = 4, green = 5, blue = 6\<rparr>,
              \<lparr>red = 7, green = 8, blue = 9\<rparr>],
      tRNS = Some [0x80], chunks_before_IDAT = [],
      rows = [[2, 0]], chunks_after_IDAT = []\<rparr>"

definition example_pal8_short :: png_stream where
  "example_pal8_short =
     \<lparr>IHDR_width = 2, IHDR_height = 1, IHDR_bit_depth = 8,
      IHDR_color_type = PNG_COLOR_TYPE_PALETTE, IHDR_interlace = PNG_INTERLACE_NONE,
      PLTE = [\<lparr>red = 1, green = 2, blue = 3\<rparr>],
      tRNS = None, chunks_before_IDAT = [],
      rows = [[0, 0]], chunks_after_IDAT = []\<rparr>"

text \<open>Images of two pixels in one row, in the formats rgb, bgra and index8.\<close>

definition example_image :: "pixel_format \<Rightarrow> byte list \<Rightarrow> Image" where
  "example_image f buf =
     \<lparr>width = 2, height = 1, format = f, buffer = buf,
      palette = default_palette example_env f, offsets = (0, 0)\<rparr>"

text \<open>An input stream with the given bytes, state and exception mask.\<close>

definition example_istream :: "byte list \<Rightarrow> iobit set \<Rightarrow> iobit set \<Rightarrow> istream" where
  "example_istream b st ex = \<lparr>bytes = b, rdstate = st, exceptions = ex\<rparr>"

section \<open>Properties\<close>

lemmas png_constants =
  PNG_COLOR_MASK_PALETTE_def PNG_COLOR_MASK_COLOR_def PNG_COLOR_MASK_ALPHA_def
  PNG_COLOR_TYPE_GRAY_def PNG_COLOR_TYPE_PALETTE_def PNG_COLOR_TYPE_RGB_def
  PNG_COLOR_TYPE_RGB_ALPHA_def PNG_COLOR_TYPE_GRAY_ALPHA_def
  PNG_INTERLACE_NONE_def PNG_INTERLACE_ADAM7_def PNG_UINT_31_MAX_def
  PNG_MAX_PALETTE_LENGTH_def

subsection \<open>\<^verbatim>\<open>detect\<close>\<close>

lemma strncmp_eq_iff:
  "n \<le> length a \<Longrightarrow> n \<le> length b \<Longrightarrow> 0 \<notin> set (take n a) \<Longrightarrow>
   strncmp a b n = Some 0 \<longleftrightarrow> take n a = take n b"
  by (induction a b n rule: strncmp.induct) (auto simp: word_uint_eq_iff)

lemma magic_signature: "magic = png_signature @ [0]"
  by (simp add: magic_def png_signature_def)

lemma signature_no_NUL: "0 \<notin> set png_signature" "length png_signature = 8"
  by (simp_all add: png_signature_def)

lemma take_magic:
  assumes "p \<le> 8"
  shows "take p magic = take p png_signature" "0 \<notin> set (take p magic)"
proof -
  show "take p magic = take p png_signature"
    using assms by (simp add: magic_signature signature_no_NUL)
  then show "0 \<notin> set (take p magic)"
    using signature_no_NUL(1) by (auto dest: in_set_takeD)
qed

lemma strncmp_magic:
  assumes "p \<le> 8" "p \<le> length buf"
  shows "strncmp magic buf p = Some 0 \<longleftrightarrow> take p buf = take p png_signature"
proof -
  have "p \<le> length magic" using assms by (simp add: magic_def)
  from strncmp_eq_iff[OF this assms(2) take_magic(2)[OF assms(1)]]
  show ?thesis by (auto simp: take_magic(1)[OF assms(1)])
qed

text \<open>A stream that ends early leaves a NUL of the zero-filled buffer among the
  bytes compared, and the signature has none.\<close>

lemma short_read_no_match:
  assumes "length b < p" "p \<le> 8"
  shows "take p (b @ drop (length b) (replicate (p + 1) 0)) \<noteq> take p png_signature"
proof
  assume eq: "take p (b @ drop (length b) (replicate (p + 1) 0)) = take p png_signature"
  have "take p (b @ drop (length b) (replicate (p + 1) (0 :: byte))) ! length b = 0"
    using assms by (simp add: nth_append nth_Cons')
  with eq have "take p png_signature ! length b = 0" by simp
  then have "png_signature ! length b = 0" using assms by simp
  moreover have "length b < length png_signature" using assms by (simp add: signature_no_NUL)
  ultimately show False using signature_no_NUL(1) by (metis nth_mem)
qed

text \<open>What \<^verbatim>\<open>detect\<close> does on a stream that is good when it is called, for a
  pointer size of at most 8: it compares as many bytes as a pointer has, and it
  throws on a short stream whose owner asked for exceptions.\<close>

lemma detect_good_stream:
  assumes "rdstate s = {}" "p \<le> 8"
  shows "detect p s =
     (if length (bytes s) < p \<and> exceptions s \<inter> {eofbit, failbit} \<noteq> {}
      then Inl ios_base_failure
      else Inr (take p (bytes s) = take p png_signature))"
proof (cases "p \<le> length (bytes s)")
  case True
  then have "istream_read s (replicate (p + 1) 0) p
      = Inr (s\<lparr>bytes := drop p (bytes s)\<rparr>, take p (bytes s) @ drop p (replicate (p + 1) 0))"
    using assms by (simp add: istream_read_def)
  moreover have "strncmp magic (take p (bytes s) @ drop p (replicate (p + 1) 0)) p = Some 0
      \<longleftrightarrow> take p (bytes s) = take p png_signature"
    using True assms(2) by (subst strncmp_magic) auto
  ultimately show ?thesis using True by (simp add: detect_def)
next
  case False
  then have short: "length (bytes s) < p" by simp
  show ?thesis
  proof (cases "exceptions s \<inter> {eofbit, failbit} \<noteq> {}")
    case True
    then have "istream_read s (replicate (p + 1) 0) p = Inl ios_base_failure"
      using assms short by (auto simp: istream_read_def setstate_def Let_def)
    with True short show ?thesis by (simp add: detect_def)
  next
    case nothrow: False
    let ?buf = "bytes s @ drop (length (bytes s)) (replicate (p + 1) 0)"
    have "\<exists>s'. istream_read s (replicate (p + 1) 0) p = Inr (s', ?buf)"
      using assms short nothrow by (auto simp: istream_read_def setstate_def Let_def)
    then obtain s' where r: "istream_read s (replicate (p + 1) 0) p = Inr (s', ?buf)" by blast
    have "p \<le> length ?buf" using short by simp
    from strncmp_magic[OF assms(2) this] short_read_no_match[OF short assms(2)]
    have "strncmp magic ?buf p \<noteq> Some 0" by simp
    moreover have "take p (bytes s) \<noteq> take p png_signature"
      using short assms(2) by (auto simp: signature_no_NUL dest: arg_cong[where f = length])
    ultimately show ?thesis using nothrow r by (simp add: detect_def)
  qed
qed

text \<open>On a target whose pointers have 8 bytes, and for a good stream without an
  exception mask, the result is whether the first 8 bytes are the signature; on a
  target whose pointers have 4 bytes only the first four bytes count.\<close>

lemma detect_pointer_size_8:
  "detect 8 \<lparr>bytes = b, rdstate = {}, exceptions = {}\<rparr> = Inr (take 8 b = png_signature)"
  using detect_good_stream[of "\<lparr>bytes = b, rdstate = {}, exceptions = {}\<rparr>" 8]
  by (simp add: signature_no_NUL)

lemma detect_pointer_size_4:
  "detect 4 \<lparr>bytes = b, rdstate = {}, exceptions = {}\<rparr> = Inr (take 4 b = [0x89, 0x50, 0x4E, 0x47])"
  using detect_good_stream[of "\<lparr>bytes = b, rdstate = {}, exceptions = {}\<rparr>" 4]
  by (simp add: png_signature_def)

text \<open>On a stream that is not good nothing is read.\<close>

lemma detect_failed_stream:
  assumes "rdstate s \<noteq> {}" "0 < p"
  shows "detect p s =
     (if (rdstate s \<union> {failbit}) \<inter> exceptions s \<noteq> {} then Inl ios_base_failure else Inr False)"
proof -
  obtain q where p: "p = Suc q" using assms(2) by (cases p) auto
  have "strncmp magic (replicate (p + 1) 0) p \<noteq> Some 0"
    by (simp add: p magic_def)
  then show ?thesis
    using assms(1) by (auto simp: detect_def istream_read_def setstate_def Let_def)
qed

text \<open>
  C6. \<^verbatim>\<open>detect\<close> does not compare the first 8 bytes with the signature but as many
  bytes as a pointer of the target has, since \<^verbatim>\<open>sizeof(magic)\<close> is taken of a
  \<^verbatim>\<open>const char *\<close>. With pointers of 8 bytes the two agree (\<open>detect_pointer_size_8\<close>).
  With pointers of 4 bytes \<^verbatim>\<open>detect\<close> returns true for the four bytes 89 50 4E 47
  followed by anything, and for a stream of only these four bytes. Nor is it true
  that \<^verbatim>\<open>detect\<close> never throws: on a stream shorter than the read, whose owner has
  enabled exceptions for \<^verbatim>\<open>failbit\<close>, \<^verbatim>\<open>s.read\<close> throws and \<^verbatim>\<open>detect\<close> does not catch
  it, whatever the pointer size.
\<close>

theorem detect_wrong_size_and_throws:
  "detect 4 (example_istream [0x89, 0x50, 0x4E, 0x47, 0, 0, 0, 0] {} {}) = Inr True
   \<and> detect 4 (example_istream [0x89, 0x50, 0x4E, 0x47] {} {}) = Inr True
   \<and> detect 8 (example_istream [0x89, 0x50, 0x4E] {} {failbit}) = Inl ios_base_failure
   \<and> detect 4 (example_istream [0x89, 0x50, 0x4E] {} {failbit}) = Inl ios_base_failure"
proof -
  have 1: "detect 4 (example_istream [0x89, 0x50, 0x4E, 0x47, 0, 0, 0, 0] {} {}) = Inr True"
    and 2: "detect 4 (example_istream [0x89, 0x50, 0x4E, 0x47] {} {}) = Inr True"
    by (simp_all add: example_istream_def detect_pointer_size_4)
  have 3: "detect 8 (example_istream [0x89, 0x50, 0x4E] {} {failbit}) = Inl ios_base_failure"
    using detect_good_stream[of "example_istream [0x89, 0x50, 0x4E] {} {failbit}" 8]
    by (simp add: example_istream_def)
  have 4: "detect 4 (example_istream [0x89, 0x50, 0x4E] {} {failbit}) = Inl ios_base_failure"
    using detect_good_stream[of "example_istream [0x89, 0x50, 0x4E] {} {failbit}" 4]
    by (simp add: example_istream_def)
  from 1 2 3 4 show ?thesis by simp
qed

text \<open>A stream that has failed before the call is not detected even when the
  signature is what it holds.\<close>

lemma detect_failed_stream_example:
  "detect 8 (example_istream png_signature {failbit} {}) = Inr False"
  using detect_failed_stream[of "example_istream png_signature {failbit} {}" 8]
  by (simp add: example_istream_def)

subsection \<open>Rows and row pointers\<close>

lemma map_upt_Suc_shift: "map f [0..<Suc m] = f 0 # map (\<lambda>k. f (Suc k)) [0..<m]"
  by (simp add: upt_conv_Cons map_Suc_upt[symmetric] o_def del: upt_Suc)

lemma row_pointers_Suc:
  "map (\<lambda>k. off + k * n) [0..<Suc m] = off # map (\<lambda>k. (off + n) + k * n) [0..<m]"
  by (simp add: map_upt_Suc_shift add.assoc del: upt_Suc)

lemma store_rows_at:
  "\<lbrakk>\<forall>r\<in>set rs. length r = n; off + length rs * n \<le> length buf\<rbrakk> \<Longrightarrow>
   store_rows buf (map (\<lambda>k. off + k * n) [0..<length rs]) rs
     = Inr (take off buf @ concat rs @ drop (off + length rs * n) buf)"
proof (induction rs arbitrary: off buf)
  case Nil
  then show ?case by simp
next
  case (Cons r rs)
  let ?buf' = "take off buf @ r @ drop (off + length r) buf"
  have r: "length r = n" and rs: "\<forall>r\<in>set rs. length r = n" using Cons.prems(1) by auto
  have len: "length ?buf' = length buf" using Cons.prems(2) r by simp
  have fit: "off + n + length rs * n \<le> length ?buf'" using Cons.prems(2) len by simp
  have "store_rows buf (map (\<lambda>k. off + k * n) [0..<length (r # rs)]) (r # rs)
        = store_rows ?buf' (map (\<lambda>k. (off + n) + k * n) [0..<length rs]) rs"
    using Cons.prems(2) r by (simp add: row_pointers_Suc del: upt_Suc)
  also have "\<dots> = Inr (take (off + n) ?buf' @ concat rs @ drop (off + n + length rs * n) ?buf')"
    by (rule Cons.IH[OF rs fit])
  also have "take (off + n) ?buf' = take off buf @ r"
    using Cons.prems(2) r by simp
  also have "drop (off + n + length rs * n) ?buf' = drop (off + length (r # rs) * n) buf"
    using Cons.prems(2) r by (simp add: ac_simps)
  finally show ?case by simp
qed

lemma store_rows_whole:
  assumes "\<forall>r\<in>set rs. length r = n" and "length buf = length rs * n"
  shows "store_rows buf (map (\<lambda>k. k * n) [0..<length rs]) rs = Inr (concat rs)"
  using store_rows_at[of rs n 0 buf] assms by simp

lemma fetch_rows_at:
  "off + h * n \<le> length buf \<Longrightarrow>
   fetch_rows buf n (map (\<lambda>k. off + k * n) [0..<h])
     = Inr (map (\<lambda>k. take n (drop (off + k * n) buf)) [0..<h])"
proof (induction h arbitrary: off)
  case 0
  then show ?case by simp
next
  case (Suc h)
  have "off + n + h * n \<le> length buf" using Suc.prems by simp
  from Suc.IH[OF this] Suc.prems show ?case
    by (simp add: map_upt_Suc_shift add.assoc del: upt_Suc)
qed

lemma concat_rows_at:
  "off + h * n \<le> length buf \<Longrightarrow>
   concat (map (\<lambda>k. take n (drop (off + k * n) buf)) [0..<h]) = take (h * n) (drop off buf)"
proof (induction h arbitrary: off)
  case 0
  then show ?case by simp
next
  case (Suc h)
  have fit: "off + n + h * n \<le> length buf" using Suc.prems by simp
  have "concat (map (\<lambda>k. take n (drop (off + k * n) buf)) [0..<Suc h])
        = take n (drop off buf) @ concat (map (\<lambda>k. take n (drop (off + n + k * n) buf)) [0..<h])"
    by (simp add: map_upt_Suc_shift add.assoc del: upt_Suc)
  also have "\<dots> = take n (drop off buf) @ take (h * n) (drop (off + n) buf)"
    using Suc.IH[OF fit] by simp
  also have "\<dots> = take (Suc h * n) (drop off buf)"
    by (simp add: take_add add.commute)
  finally show ?case .
qed

subsection \<open>Reading a valid datastream\<close>

lemma chunkFn_ret: "fst (chunkFn h u c) = 0 \<or> fst (chunkFn h u c) = 1"
  by (simp add: chunkFn_def)

lemma handle_unknown_chunkFn:
  "list_all (\<lambda>c. \<not> png_chunk_critical c) cs \<Longrightarrow>
   png_handle_unknown (chunkFn h) u cs = Inr (foldl (\<lambda>u c. snd (chunkFn h u c)) u cs)"
proof (induction cs arbitrary: u)
  case Nil
  then show ?case by simp
next
  case (Cons c cs)
  obtain ret u' where f: "chunkFn h u c = (ret, u')" by (cases "chunkFn h u c")
  with chunkFn_ret[of h u c] have "ret = 0 \<or> ret = 1" by simp
  with Cons f show ?case by auto
qed

lemma png_read_info_valid:
  assumes "png_valid s"
  shows "png_read_info (chunkFn h) u s =
     Inr (foldl (\<lambda>u c. snd (chunkFn h u c)) u (chunks_before_IDAT s), stream_info s)"
  using assms
  by (simp add: png_valid_def png_read_info_def handle_unknown_chunkFn split: if_splits)

lemma png_read_end_valid:
  "png_valid s \<Longrightarrow> \<exists>u'. png_read_end (chunkFn h) u s = Inr u'"
  by (simp add: png_valid_def png_read_end_def handle_unknown_chunkFn)

lemma png_read_image_rows:
  assumes fit: "rows_fit (info_width i) (info_height i) (color_type i) (bit_depth i) (rows s)"
    and len: "\<forall>r\<in>set (rows s). length (png_do_read_transformations t i r) = n"
    and buf: "length buf = info_height i * n"
  shows "png_read_image t i s (map (\<lambda>k. k * n) [0..<info_height i]) buf
         = Inr (concat (map (png_do_read_transformations t i) (rows s)))"
proof -
  let ?rs = "map (png_do_read_transformations t i) (rows s)"
  have h: "length ?rs = info_height i" using fit by (simp add: rows_fit_def)
  have "store_rows buf (map (\<lambda>k. k * n) [0..<length ?rs]) ?rs = Inr (concat ?rs)"
    by (rule store_rows_whole) (use len buf h in auto)
  with fit h show ?thesis by (simp add: png_read_image_def)
qed

lemmas png_set_defs = png_set_strip_16_def png_set_packing_def png_set_interlace_handling_def
  png_set_expand_def png_set_gray_to_rgb_def no_transformations_def

lemma stream_info_simps [simp]:
  "info_width (stream_info s) = IHDR_width s"
  "info_height (stream_info s) = IHDR_height s"
  "bit_depth (stream_info s) = IHDR_bit_depth s"
  "color_type (stream_info s) = IHDR_color_type s"
  "interlace_type (stream_info s) = IHDR_interlace s"
  "info_palette (stream_info s) = PLTE s"
  "valid_tRNS (stream_info s) = (png_handle_tRNS s \<noteq> None)"
  by (simp_all add: stream_info_def)

lemma update_info_size [simp]:
  "info_width (png_read_update_info t i) = info_width i"
  "info_height (png_read_update_info t i) = info_height i"
  by (simp_all add: png_read_update_info_def Let_def)

text \<open>The general shape of a run of the body of load that gets through.\<close>

lemma load_decode_valid:
  assumes v: "png_valid s"
    and fmt: "load_format (color_type (png_read_update_info (load_transformations (stream_info s)) (stream_info s)))
                (bit_depth (png_read_update_info (load_transformations (stream_info s)) (stream_info s))) = Inr f"
    and pal: "(if color_type (png_read_update_info (load_transformations (stream_info s)) (stream_info s)) = PNG_COLOR_TYPE_PALETTE
               then load_palette (png_read_update_info (load_transformations (stream_info s)) (stream_info s))
                      (new_Image e (IHDR_width s) (IHDR_height s) f)
               else Inr (new_Image e (IHDR_width s) (IHDR_height s) f)) = Inr im0"
    and len: "\<forall>r\<in>set (rows s).
                length (png_do_read_transformations (load_transformations (stream_info s)) (stream_info s) r)
                  = IHDR_width s * bytes_per_pixel f"
  shows "load_decode e s =
     Inr (im0\<lparr>offsets := foldl (\<lambda>u c. snd (chunkFn (host e) u c)) (stack_offsets e) (chunks_before_IDAT s),
              buffer := concat (map (png_do_read_transformations (load_transformations (stream_info s)) (stream_info s)) (rows s))\<rparr>)"
proof -
  let ?i0 = "stream_info s"
  let ?t = "load_transformations ?i0"
  let ?offs = "foldl (\<lambda>u c. snd (chunkFn (host e) u c)) (stack_offsets e) (chunks_before_IDAT s)"
  let ?n = "IHDR_width s * bytes_per_pixel f"
  have fit: "rows_fit (info_width ?i0) (info_height ?i0) (color_type ?i0) (bit_depth ?i0) (rows s)"
    using v by (simp add: png_valid_def)
  have im0: "buffer im0 = replicate (IHDR_width s * IHDR_height s * bytes_per_pixel f) 0"
    using pal by (auto simp: load_palette_def new_Image_def split: if_splits sum.splits)
  have img: "png_read_image ?t ?i0 s (map (\<lambda>k. k * ?n) [0..<info_height ?i0]) (buffer im0)
        = Inr (concat (map (png_do_read_transformations ?t ?i0) (rows s)))"
    by (rule png_read_image_rows[OF fit len]) (simp add: im0 ac_simps)
  obtain u' where e: "png_read_end (chunkFn (host e)) ?offs s = Inr u'"
    using png_read_end_valid[OF v] by blast
  have sl: "map (scanline_ptr (new_Image e (IHDR_width s) (IHDR_height s) f)) [0..<IHDR_height s]
       = map (\<lambda>k. k * ?n) [0..<IHDR_height s]"
    by (simp add: scanline_ptr_def new_Image_def)
  from img have img': "png_read_image ?t ?i0 s (map (\<lambda>k. k * ?n) [0..<IHDR_height s])
        (replicate (IHDR_width s * IHDR_height s * bytes_per_pixel f) 0)
        = Inr (concat (map (png_do_read_transformations ?t ?i0) (rows s)))"
    by (simp add: im0)
  show ?thesis
    using pal
    by (simp add: load_decode_def png_read_info_valid[OF v] fmt sl img' e im0 split: if_splits)
qed

lemma load_transformations_plain:
  "color_type i \<noteq> PNG_COLOR_TYPE_GRAY \<Longrightarrow> color_type i \<noteq> PNG_COLOR_TYPE_GRAY_ALPHA \<Longrightarrow>
   load_transformations i =
     \<lparr>PNG_16_TO_8 = True, PNG_PACK = (bit_depth i < 8),
      PNG_INTERLACE = (interlace_type i \<noteq> PNG_INTERLACE_NONE),
      PNG_EXPAND = False, PNG_EXPAND_tRNS = False, PNG_GRAY_TO_RGB = False\<rparr>"
  by (simp add: load_transformations_def png_set_defs Let_def)

lemma update_info_plain:
  assumes "color_type i \<noteq> PNG_COLOR_TYPE_GRAY" "color_type i \<noteq> PNG_COLOR_TYPE_GRAY_ALPHA"
    and "bit_depth i = 1 \<or> bit_depth i = 2 \<or> bit_depth i = 4 \<or> bit_depth i = 8 \<or> bit_depth i = 16"
  shows "png_read_update_info (load_transformations i) i = i\<lparr>bit_depth := 8\<rparr>"
  using assms by (auto simp: load_transformations_plain png_read_update_info_def)

lemma transform_plain:
  assumes "color_type i \<noteq> PNG_COLOR_TYPE_GRAY" "color_type i \<noteq> PNG_COLOR_TYPE_GRAY_ALPHA"
  shows "png_do_read_transformations (load_transformations i) i
         = (\<lambda>r. map of_nat (if bit_depth i = 16 then map (\<lambda>v. v div 256) r else r))"
  using assms by (intro ext) (simp add: load_transformations_plain png_do_read_transformations_def)

lemma valid_bit_depth:
  "png_valid s \<Longrightarrow>
   IHDR_bit_depth s = 1 \<or> IHDR_bit_depth s = 2 \<or> IHDR_bit_depth s = 4
   \<or> IHDR_bit_depth s = 8 \<or> IHDR_bit_depth s = 16"
  by (simp add: png_valid_def png_check_IHDR_def)

lemma valid_row_length:
  "png_valid s \<Longrightarrow> r \<in> set (rows s) \<Longrightarrow> length r = IHDR_width s * png_channels (IHDR_color_type s)"
  by (auto simp: png_valid_def rows_fit_def list_all_iff)

lemma load_decode_RGB:
  assumes v: "png_valid s"
    and ct: "IHDR_color_type s = PNG_COLOR_TYPE_RGB \<or> IHDR_color_type s = PNG_COLOR_TYPE_RGB_ALPHA"
  shows "load_decode e s = Inr
     \<lparr>width = IHDR_width s, height = IHDR_height s,
      format = (if IHDR_color_type s = PNG_COLOR_TYPE_RGB then rgb else rgba),
      buffer = concat (map (\<lambda>r. map of_nat (if IHDR_bit_depth s = 16 then map (\<lambda>v. v div 256) r else r)) (rows s)),
      palette = default_palette e (if IHDR_color_type s = PNG_COLOR_TYPE_RGB then rgb else rgba),
      offsets = foldl (\<lambda>u c. snd (chunkFn (host e) u c)) (stack_offsets e) (chunks_before_IDAT s)\<rparr>"
proof -
  let ?f = "if IHDR_color_type s = PNG_COLOR_TYPE_RGB then rgb else rgba"
  have ng: "color_type (stream_info s) \<noteq> PNG_COLOR_TYPE_GRAY"
           "color_type (stream_info s) \<noteq> PNG_COLOR_TYPE_GRAY_ALPHA"
    using ct by (auto simp: png_constants)
  have bd: "bit_depth (stream_info s) = 1 \<or> bit_depth (stream_info s) = 2 \<or> bit_depth (stream_info s) = 4
      \<or> bit_depth (stream_info s) = 8 \<or> bit_depth (stream_info s) = 16"
    using valid_bit_depth[OF v] by simp
  note upd = update_info_plain[OF ng bd]
  have fmt: "load_format (color_type (png_read_update_info (load_transformations (stream_info s)) (stream_info s)))
                (bit_depth (png_read_update_info (load_transformations (stream_info s)) (stream_info s))) = Inr ?f"
    using ct by (auto simp: upd load_format_def png_constants)
  have pal: "(if color_type (png_read_update_info (load_transformations (stream_info s)) (stream_info s)) = PNG_COLOR_TYPE_PALETTE
               then load_palette (png_read_update_info (load_transformations (stream_info s)) (stream_info s))
                      (new_Image e (IHDR_width s) (IHDR_height s) ?f)
               else Inr (new_Image e (IHDR_width s) (IHDR_height s) ?f))
             = Inr (new_Image e (IHDR_width s) (IHDR_height s) ?f)"
    using ct by (auto simp: upd png_constants)
  have ch: "png_channels (IHDR_color_type s) = bytes_per_pixel ?f"
    using ct by (auto simp: png_channels_def png_constants)
  have len: "\<forall>r\<in>set (rows s).
                length (png_do_read_transformations (load_transformations (stream_info s)) (stream_info s) r)
                  = IHDR_width s * bytes_per_pixel ?f"
    using valid_row_length[OF v] by (simp add: transform_plain[OF ng] ch)
  show ?thesis
    by (simp add: load_decode_valid[OF v fmt pal len] transform_plain[OF ng] new_Image_def)
qed

subsection \<open>Paletted images\<close>

lemma copy_PLTE_eq:
  "k \<le> length pal \<Longrightarrow> copy_PLTE pal k cs =
     (if k + length cs \<le> length pal
      then Inr (map (\<lambda>(c, p). c\<lparr>red := red p, green := green p, blue := blue p\<rparr>) (zip cs (drop k pal)))
      else Inl out_of_range)"
proof (induction cs arbitrary: k)
  case Nil
  then show ?case by simp
next
  case (Cons c cs)
  show ?case
  proof (cases "k < length pal")
    case True
    then have "drop k pal = pal ! k # drop (Suc k) pal" by (simp add: Cons_nth_drop_Suc)
    with True Cons.IH[of "Suc k"] show ?thesis by (simp add: Let_def)
  next
    case False
    then show ?thesis by simp
  qed
qed

lemma valid_PALETTE:
  assumes "png_valid s" "IHDR_color_type s = PNG_COLOR_TYPE_PALETTE"
  shows "IHDR_bit_depth s \<noteq> 16" "PLTE s \<noteq> []" "length (PLTE s) \<le> 256"
  using assms by (auto simp: png_valid_def png_check_IHDR_def png_constants)

lemma valid_tRNS_PALETTE:
  assumes "png_valid s" "IHDR_color_type s = PNG_COLOR_TYPE_PALETTE" "tRNS s = Some t"
  shows "png_handle_tRNS s = Some (t, length t)" "length t \<le> length (PLTE s)" "t \<noteq> []"
  using assms by (auto simp: png_valid_def png_handle_tRNS_def png_constants split: if_splits)

text \<open>A valid paletted datastream: the common part.\<close>

lemma load_decode_PALETTE:
  assumes v: "png_valid s" and ct: "IHDR_color_type s = PNG_COLOR_TYPE_PALETTE"
    and pal: "load_palette ((stream_info s)\<lparr>bit_depth := 8\<rparr>)
                (new_Image e (IHDR_width s) (IHDR_height s) index8) = Inr im0"
  shows "load_decode e s =
     Inr (im0\<lparr>offsets := foldl (\<lambda>u c. snd (chunkFn (host e) u c)) (stack_offsets e) (chunks_before_IDAT s),
              buffer := concat (map (map of_nat) (rows s))\<rparr>)"
proof -
  have ng: "color_type (stream_info s) \<noteq> PNG_COLOR_TYPE_GRAY"
           "color_type (stream_info s) \<noteq> PNG_COLOR_TYPE_GRAY_ALPHA"
    using ct by (auto simp: png_constants)
  have bd: "bit_depth (stream_info s) = 1 \<or> bit_depth (stream_info s) = 2 \<or> bit_depth (stream_info s) = 4
      \<or> bit_depth (stream_info s) = 8 \<or> bit_depth (stream_info s) = 16"
    using valid_bit_depth[OF v] by simp
  note upd = update_info_plain[OF ng bd]
  have fmt: "load_format (color_type (png_read_update_info (load_transformations (stream_info s)) (stream_info s)))
                (bit_depth (png_read_update_info (load_transformations (stream_info s)) (stream_info s))) = Inr index8"
    using ct by (simp add: upd load_format_def png_constants)
  have pal': "(if color_type (png_read_update_info (load_transformations (stream_info s)) (stream_info s)) = PNG_COLOR_TYPE_PALETTE
               then load_palette (png_read_update_info (load_transformations (stream_info s)) (stream_info s))
                      (new_Image e (IHDR_width s) (IHDR_height s) index8)
               else Inr (new_Image e (IHDR_width s) (IHDR_height s) index8))
             = Inr im0"
    using ct pal by (simp add: upd)
  have tr: "png_do_read_transformations (load_transformations (stream_info s)) (stream_info s) = map of_nat"
    using valid_PALETTE(1)[OF v ct] by (simp add: transform_plain[OF ng])
  have len: "\<forall>r\<in>set (rows s).
                length (png_do_read_transformations (load_transformations (stream_info s)) (stream_info s) r)
                  = IHDR_width s * bytes_per_pixel index8"
    using valid_row_length[OF v] ct by (simp add: tr png_channels_def png_constants)
  show ?thesis
    by (simp add: load_decode_valid[OF v fmt pal' len] tr)
qed

lemma load_palette_tRNS:
  assumes v: "png_valid s" and ct: "IHDR_color_type s = PNG_COLOR_TYPE_PALETTE"
    and tr: "tRNS s = Some t"
  shows "load_palette ((stream_info s)\<lparr>bit_depth := 8\<rparr>) im
     = Inr (im\<lparr>palette := \<lparr>pal_format = rgba,
          pal_entries = map (\<lambda>k. \<lparr>red = red (PLTE s ! k), green = green (PLTE s ! k),
                               blue = blue (PLTE s ! k),
                               alpha = (if k < length t then t ! k else 0xff)\<rparr>) [0..<length (PLTE s)]\<rparr>\<rparr>)"
  using valid_tRNS_PALETTE(1)[OF v ct tr]
  by (simp add: load_palette_def tRNS_palette_def stream_info_def Let_def)

lemma load_palette_no_tRNS:
  assumes "tRNS s = None"
  shows "load_palette ((stream_info s)\<lparr>bit_depth := 8\<rparr>) im
     = (if length (pal_entries (palette im)) \<le> length (PLTE s)
        then Inr (im\<lparr>palette := (palette im)\<lparr>pal_entries :=
               map (\<lambda>(c, p). c\<lparr>red := red p, green := green p, blue := blue p\<rparr>)
                 (zip (pal_entries (palette im)) (PLTE s))\<rparr>\<rparr>)
        else Inl out_of_range)"
  using assms
  by (simp add: load_palette_def stream_info_def png_handle_tRNS_def copy_PLTE_eq)

subsection \<open>The exits of \<^verbatim>\<open>load\<close>; grey images\<close>

lemma load_returns:
  "struct_alloc_ok e \<Longrightarrow> info_alloc_ok e \<Longrightarrow> load_decode e s = Inr im \<Longrightarrow>
   load e s = (Inr im, [png_create_read_struct, png_create_info_struct])"
  by (simp add: load_def)

lemma load_throws:
  "struct_alloc_ok e \<Longrightarrow> info_alloc_ok e \<Longrightarrow> load_decode e s = Inl err \<Longrightarrow> err \<noteq> png_error \<Longrightarrow>
   load e s = (Inl err, [png_create_read_struct, png_create_info_struct])"
  by (cases err) (simp_all add: load_def)

lemma load_longjmp:
  "struct_alloc_ok e \<Longrightarrow> info_alloc_ok e \<Longrightarrow> load_decode e s = Inl png_error \<Longrightarrow>
   load e s = (Inl (image_load_error ''An error occurred in libpng''),
               [png_create_read_struct, png_create_info_struct, png_destroy_read_struct True])"
  by (simp add: load_def)

lemma png_handle_unknown_error:
  "png_handle_unknown fn u cs = Inl err \<Longrightarrow> err = png_error"
  by (induction cs arbitrary: u) (auto split: prod.splits if_splits)

lemma png_read_info_cases:
  "png_read_info fn u s = Inl png_error \<or> (\<exists>u'. png_read_info fn u s = Inr (u', stream_info s))"
  by (auto simp: png_read_info_def split: sum.splits dest: png_handle_unknown_error)

lemma fmt_int_0: "fmt_int 0 = ''0''" by (simp add: fmt_int_def digit_char_def)
lemma fmt_int_4: "fmt_int 4 = ''4''" by (simp add: fmt_int_def digit_char_def)

lemma update_info_GRAY:
  assumes "color_type i = PNG_COLOR_TYPE_GRAY"
  shows "color_type (png_read_update_info (load_transformations i) i)
          = (if num_trans i \<noteq> 0 then PNG_COLOR_TYPE_GRAY_ALPHA else PNG_COLOR_TYPE_GRAY)"
  using assms
  by (simp add: load_transformations_def png_set_defs png_read_update_info_def Let_def png_constants)

text \<open>A grey image without alpha channel never gets as far as the rows.\<close>

lemma load_GRAY_raises:
  assumes "IHDR_color_type s = PNG_COLOR_TYPE_GRAY"
  shows "load_decode e s = Inl png_error
       \<or> load_decode e s = Inl (image_load_error ''Unknown PNG image color type: 0'')
       \<or> load_decode e s = Inl (image_load_error ''Unknown PNG image color type: 4'')"
proof -
  from png_read_info_cases[of "chunkFn (host e)" "stack_offsets e" s]
  show ?thesis
  proof
    assume "png_read_info (chunkFn (host e)) (stack_offsets e) s = Inl png_error"
    then show ?thesis by (simp add: load_decode_def)
  next
    assume "\<exists>u'. png_read_info (chunkFn (host e)) (stack_offsets e) s = Inr (u', stream_info s)"
    then obtain u' where r: "png_read_info (chunkFn (host e)) (stack_offsets e) s = Inr (u', stream_info s)"
      by blast
    have ct: "color_type (stream_info s) = PNG_COLOR_TYPE_GRAY" using assms by simp
    show ?thesis
      by (simp add: load_decode_def r update_info_GRAY[OF ct] load_format_def png_constants
            fmt_int_0 fmt_int_4)
  qed
qed

lemma length_gray_to_rgb:
  "length r = n * 2 \<Longrightarrow> length (png_do_gray_to_rgb True r) = n * 4"
proof (induction n arbitrary: r)
  case 0
  then show ?case by simp
next
  case (Suc n)
  then obtain g a r' where r: "r = g # a # r'" and "length r' = n * 2"
    by (cases r; cases "tl r") auto
  with Suc.IH[of r'] show ?case by simp
qed

lemma load_transformations_GRAY_ALPHA:
  "color_type i = PNG_COLOR_TYPE_GRAY_ALPHA \<Longrightarrow>
   load_transformations i =
     \<lparr>PNG_16_TO_8 = True, PNG_PACK = (bit_depth i < 8),
      PNG_INTERLACE = (interlace_type i \<noteq> PNG_INTERLACE_NONE),
      PNG_EXPAND = True, PNG_EXPAND_tRNS = False, PNG_GRAY_TO_RGB = True\<rparr>"
  by (simp add: load_transformations_def png_set_defs Let_def png_constants)

lemma update_info_GRAY_ALPHA:
  assumes "color_type i = PNG_COLOR_TYPE_GRAY_ALPHA" "bit_depth i = 8 \<or> bit_depth i = 16"
  shows "color_type (png_read_update_info (load_transformations i) i) = PNG_COLOR_TYPE_RGB_ALPHA"
    and "bit_depth (png_read_update_info (load_transformations i) i) = 8"
  using assms
  by (auto simp: load_transformations_GRAY_ALPHA png_read_update_info_def png_constants Let_def)

lemma valid_GRAY_ALPHA:
  assumes "png_valid s" "IHDR_color_type s = PNG_COLOR_TYPE_GRAY_ALPHA"
  shows "IHDR_bit_depth s = 8 \<or> IHDR_bit_depth s = 16" "png_handle_tRNS s = None"
  using assms
  by (auto simp: png_valid_def png_check_IHDR_def png_constants png_handle_tRNS_def split: option.splits)

lemma load_decode_GRAY_ALPHA:
  assumes v: "png_valid s" and ct: "IHDR_color_type s = PNG_COLOR_TYPE_GRAY_ALPHA"
  shows "load_decode e s = Inr
     \<lparr>width = IHDR_width s, height = IHDR_height s, format = rgba,
      buffer = concat (map (\<lambda>r. map of_nat (png_do_gray_to_rgb True
                  (if IHDR_bit_depth s = 16 then map (\<lambda>v. v div 256) r else r))) (rows s)),
      palette = default_palette e rgba,
      offsets = foldl (\<lambda>u c. snd (chunkFn (host e) u c)) (stack_offsets e) (chunks_before_IDAT s)\<rparr>"
proof -
  have ct': "color_type (stream_info s) = PNG_COLOR_TYPE_GRAY_ALPHA" using ct by simp
  note t = load_transformations_GRAY_ALPHA[OF ct']
  have upd: "color_type (png_read_update_info (load_transformations (stream_info s)) (stream_info s)) = PNG_COLOR_TYPE_RGB_ALPHA"
       "bit_depth (png_read_update_info (load_transformations (stream_info s)) (stream_info s)) = 8"
    using valid_GRAY_ALPHA(1)[OF v ct]
    by (simp_all add: update_info_GRAY_ALPHA[OF ct'])
  have fmt: "load_format (color_type (png_read_update_info (load_transformations (stream_info s)) (stream_info s)))
                (bit_depth (png_read_update_info (load_transformations (stream_info s)) (stream_info s))) = Inr rgba"
    by (simp add: upd load_format_def png_constants)
  have pal: "(if color_type (png_read_update_info (load_transformations (stream_info s)) (stream_info s)) = PNG_COLOR_TYPE_PALETTE
               then load_palette (png_read_update_info (load_transformations (stream_info s)) (stream_info s))
                      (new_Image e (IHDR_width s) (IHDR_height s) rgba)
               else Inr (new_Image e (IHDR_width s) (IHDR_height s) rgba))
             = Inr (new_Image e (IHDR_width s) (IHDR_height s) rgba)"
    by (simp add: upd png_constants)
  have tr: "png_do_read_transformations (load_transformations (stream_info s)) (stream_info s)
       = (\<lambda>r. map of_nat (png_do_gray_to_rgb True (if IHDR_bit_depth s = 16 then map (\<lambda>v. v div 256) r else r)))"
    using ct valid_GRAY_ALPHA(1)[OF v ct]
    by (intro ext) (auto simp: t png_do_read_transformations_def png_constants)
  have len: "\<forall>r\<in>set (rows s).
                length (png_do_read_transformations (load_transformations (stream_info s)) (stream_info s) r)
                  = IHDR_width s * bytes_per_pixel rgba"
    using valid_row_length[OF v] ct
    by (auto simp: tr png_channels_def png_constants intro!: length_gray_to_rgb)
  show ?thesis
    by (simp add: load_decode_valid[OF v fmt pal len] tr new_Image_def)
qed

subsection \<open>Writing a valid image\<close>

lemma save_format_cases:
  "save_format f = Inr ct \<Longrightarrow>
   (f = rgb \<or> f = bgr) \<and> ct = PNG_COLOR_TYPE_RGB \<or> (f = rgba \<or> f = bgra) \<and> ct = PNG_COLOR_TYPE_RGB_ALPHA"
  by (cases f) auto

lemma save_format_channels:
  "save_format f = Inr ct \<Longrightarrow> png_channels ct = bytes_per_pixel f"
  by (cases f) (auto simp: png_channels_def png_constants)

lemma save_encode_valid:
  assumes v: "valid_image im" and f: "save_format (format im) = Inr ct"
  shows "save_encode im = Inr
     \<lparr>IHDR_width = width im, IHDR_height = height im, IHDR_bit_depth = 8,
      IHDR_color_type = ct, IHDR_interlace = PNG_INTERLACE_NONE,
      PLTE = [], tRNS = None, chunks_before_IDAT = [],
      rows = map (\<lambda>k. map unat (take (width im * bytes_per_pixel (format im))
                                   (drop (k * (width im * bytes_per_pixel (format im))) (buffer im))))
               [0..<height im],
      chunks_after_IDAT = []\<rparr>"
proof -
  let ?n = "width im * bytes_per_pixel (format im)"
  have chk: "png_check_IHDR (width im) (height im) 8 ct PNG_INTERLACE_NONE"
    using v save_format_cases[OF f] by (auto simp: valid_image_def png_check_IHDR_def png_constants)
  have "0 + height im * ?n \<le> length (buffer im)"
    using v by (simp add: valid_image_def ac_simps)
  from fetch_rows_at[OF this]
  have rows: "fetch_rows (buffer im) ?n (map (\<lambda>k. k * ?n) [0..<height im])
      = Inr (map (\<lambda>k. take ?n (drop (k * ?n) (buffer im))) [0..<height im])"
    by simp
  have sl: "map (scanline_ptr im) [0..<height im] = map (\<lambda>k. k * ?n) [0..<height im]"
    by (simp add: scanline_ptr_def)
  show ?thesis
    by (simp add: save_encode_def f png_set_IHDR_def chk png_write_image_def sl
          save_format_channels[OF f] rows o_def)
qed

lemma save_returns:
  "struct_alloc_ok e \<Longrightarrow> info_alloc_ok e \<Longrightarrow> save_encode im = Inr s \<Longrightarrow>
   save e im = (Inr s, [png_create_write_struct, png_create_info_struct, png_destroy_write_struct True])"
  by (simp add: save_def)

lemma saved_stream_valid:
  assumes v: "valid_image im" and f: "save_format (format im) = Inr ct"
    and s: "save_encode im = Inr s"
  shows "png_valid s"
proof -
  have chk: "png_check_IHDR (width im) (height im) 8 ct PNG_INTERLACE_NONE"
    using v save_format_cases[OF f] by (auto simp: valid_image_def png_check_IHDR_def png_constants)
  have np: "ct \<noteq> PNG_COLOR_TYPE_PALETTE"
    using save_format_cases[OF f] by (auto simp: png_constants)
  have len: "k < height im \<Longrightarrow>
       length (take (width im * bytes_per_pixel (format im))
                 (drop (k * (width im * bytes_per_pixel (format im))) (buffer im)))
        = width im * bytes_per_pixel (format im)" for k
  proof -
    assume "k < height im"
    then have "Suc k * (width im * bytes_per_pixel (format im)) \<le> height im * (width im * bytes_per_pixel (format im))"
      by (intro mult_le_mono1) simp
    moreover have "length (buffer im) = height im * (width im * bytes_per_pixel (format im))"
      using v by (simp add: valid_image_def ac_simps)
    ultimately show ?thesis by simp
  qed
  have b: "unat (x :: byte) < 256" for x
    using unsigned_less[of x, where 'a = nat] by simp
  show ?thesis
    using s chk np len
    by (auto simp: save_encode_valid[OF v f] png_valid_def rows_fit_def list_all_iff
         save_format_channels[OF f] b)
qed

lemma roundtrip_buffer:
  assumes v: "valid_image im"
  shows "concat (map (\<lambda>r. map of_nat r)
           (map (\<lambda>k. map unat (take (width im * bytes_per_pixel (format im))
                                   (drop (k * (width im * bytes_per_pixel (format im))) (buffer im))))
               [0..<height im])) = buffer im"
proof -
  let ?n = "width im * bytes_per_pixel (format im)"
  have fit: "0 + height im * ?n \<le> length (buffer im)"
    using v by (simp add: valid_image_def ac_simps)
  have "concat (map (\<lambda>k. take ?n (drop (0 + k * ?n) (buffer im))) [0..<height im])
        = take (height im * ?n) (drop 0 (buffer im))"
    by (rule concat_rows_at[OF fit])
  moreover have "height im * ?n = length (buffer im)"
    using v by (simp add: valid_image_def ac_simps)
  ultimately show ?thesis by (simp add: o_def)
qed

subsection \<open>How loading a paletted image can end\<close>

lemma store_rows_error: "store_rows buf ps rs = Inl err \<Longrightarrow> err = out_of_range"
  by (induction buf ps rs rule: store_rows.induct) (auto split: if_splits)

lemma png_read_image_error:
  "png_read_image t i s ps buf = Inl err \<Longrightarrow> err = png_error \<or> err = out_of_range"
  by (auto simp: png_read_image_def split: if_splits dest: store_rows_error)

lemma copy_PLTE_error: "copy_PLTE pal k cs = Inl err \<Longrightarrow> err = out_of_range"
  by (induction cs arbitrary: k) (auto simp: Let_def split: if_splits sum.splits)

lemma load_palette_error: "load_palette i im = Inl err \<Longrightarrow> err = out_of_range"
  by (auto simp: load_palette_def split: if_splits sum.splits dest: copy_PLTE_error)

lemma load_palette_format: "load_palette i im = Inr im' \<Longrightarrow> format im' = format im"
  by (auto simp: load_palette_def split: if_splits sum.splits)

lemma png_read_info_checked:
  "png_read_info fn u s = Inr r \<Longrightarrow>
   png_check_IHDR (IHDR_width s) (IHDR_height s) (IHDR_bit_depth s) (IHDR_color_type s) (IHDR_interlace s)"
  by (auto simp: png_read_info_def split: if_splits)

text \<open>Whatever a paletted datastream holds, the body of load ends in one of three
  ways: libpng's error exit, an access out of range, or an index8 image.\<close>

lemma load_decode_PALETTE_cases:
  assumes ct: "IHDR_color_type s = PNG_COLOR_TYPE_PALETTE"
  shows "load_decode e s = Inl png_error \<or> load_decode e s = Inl out_of_range
         \<or> (\<exists>im. load_decode e s = Inr im \<and> format im = index8)"
proof -
  from png_read_info_cases[of "chunkFn (host e)" "stack_offsets e" s]
  show ?thesis
  proof
    assume "png_read_info (chunkFn (host e)) (stack_offsets e) s = Inl png_error"
    then show ?thesis by (simp add: load_decode_def)
  next
    assume "\<exists>u'. png_read_info (chunkFn (host e)) (stack_offsets e) s = Inr (u', stream_info s)"
    then obtain u' where r: "png_read_info (chunkFn (host e)) (stack_offsets e) s = Inr (u', stream_info s)"
      by blast
    let ?i0 = "stream_info s"
    let ?i1 = "png_read_update_info (load_transformations ?i0) ?i0"
    have ng: "color_type ?i0 \<noteq> PNG_COLOR_TYPE_GRAY" "color_type ?i0 \<noteq> PNG_COLOR_TYPE_GRAY_ALPHA"
      using ct by (auto simp: png_constants)
    have bd: "bit_depth ?i0 = 1 \<or> bit_depth ?i0 = 2 \<or> bit_depth ?i0 = 4 \<or> bit_depth ?i0 = 8 \<or> bit_depth ?i0 = 16"
      using png_read_info_checked[OF r] by (simp add: png_check_IHDR_def)
    note upd = update_info_plain[OF ng bd]
    have pct: "color_type ?i1 = PNG_COLOR_TYPE_PALETTE" using ct by (simp add: upd)
    have fmt: "load_format PNG_COLOR_TYPE_PALETTE (bit_depth ?i1) = Inr index8"
      by (simp add: upd load_format_def png_constants)
    let ?im = "new_Image e (IHDR_width s) (IHDR_height s) index8"
    show ?thesis
    proof (cases "load_palette ?i1 ?im")
      case (Inl err)
      with load_palette_error[OF Inl] show ?thesis
        by (simp add: load_decode_def Let_def r fmt pct)
    next
      case (Inr im1)
      have f1: "format im1 = index8" using load_palette_format[OF Inr] by (simp add: new_Image_def)
      let ?sl = "map (scanline_ptr ?im) [0..<IHDR_height s]"
      show ?thesis
      proof (cases "png_read_image (load_transformations ?i0) ?i0 s ?sl (buffer im1)")
        case (Inl err)
        with png_read_image_error[OF Inl] show ?thesis
          by (auto simp: load_decode_def Let_def r fmt pct Inr)
      next
        case img: (Inr buf)
        show ?thesis
        proof (cases "png_read_end (chunkFn (host e)) u' s")
          case (Inl err)
          then have "err = png_error"
            by (auto simp: png_read_end_def dest: png_handle_unknown_error)
          with Inl show ?thesis
            by (simp add: load_decode_def Let_def r fmt pct Inr img)
        next
          case en: (Inr u2)
          show ?thesis
            by (simp add: load_decode_def Let_def r fmt pct Inr img en f1)
        qed
      qed
    qed
  qed
qed

lemma load_PALETTE_never_bit_depth_error:
  assumes ct: "IHDR_color_type s = PNG_COLOR_TYPE_PALETTE"
  shows "fst (load e s) \<noteq> Inl (image_load_error (''Invalid PNG bit depth: '' @ m))"
  using load_decode_PALETTE_cases[OF ct, of e]
  by (auto simp: load_def)

subsection \<open>The example inputs\<close>

lemmas example_defs = example_env_def example_rgb_def example_grAb_def example_gray_def
  example_gray_alpha_def example_pal4_def example_pal8_tRNS_def example_pal8_short_def
  example_image_def

lemmas validity_defs = png_valid_def png_check_IHDR_def rows_fit_def png_channels_def
  png_handle_tRNS_def png_chunk_critical_def valid_image_def

lemma example_env_allocs [simp]: "struct_alloc_ok example_env" "info_alloc_ok example_env"
  by (simp_all add: example_env_def)

lemma example_rgb_valid: "png_valid example_rgb"
  by (simp add: example_defs validity_defs png_constants)

lemma example_gray_alpha_valid: "png_valid example_gray_alpha"
  by (simp add: example_defs validity_defs png_constants)

lemma example_pal4_valid: "png_valid example_pal4"
  by (simp add: example_defs validity_defs png_constants)

lemma example_pal8_tRNS_valid: "png_valid example_pal8_tRNS"
  by (simp add: example_defs validity_defs png_constants)

lemma example_pal8_short_valid: "png_valid example_pal8_short"
  by (simp add: example_defs validity_defs png_constants)

subsection \<open>Sprite offsets\<close>

lemma load_decode_offsets:
  "load_decode e s = Inr im \<Longrightarrow>
   \<exists>i0. png_read_info (chunkFn (host e)) (stack_offsets e) s = Inr (offsets im, i0)"
  by (auto simp: load_decode_def Let_def split: sum.splits prod.splits if_splits)

lemma load_Inr_decode: "load e s = (Inr im, ev) \<Longrightarrow> load_decode e s = Inr im"
  by (auto simp: load_def split: if_splits sum.splits error.splits)

lemma load_offsets_no_chunk:
  assumes "load e s = (Inr im, ev)" "chunks_before_IDAT s = []"
  shows "offsets im = stack_offsets e"
  using load_decode_offsets[OF load_Inr_decode[OF assms(1)]] assms(2)
  by (auto simp: png_read_info_def split: if_splits)

lemma bswap32_le32: "bswap32 (le32 a b c d) = be32 a b c d"
proof -
  have hi: "bit (x :: byte) n \<Longrightarrow> n < 8" for x n
    by (auto dest: bit_imp_le_length)
  have "ucast (le32 a b c d) = a" "ucast (drop_bit 8 (le32 a b c d)) = b"
       "ucast (drop_bit 16 (le32 a b c d)) = c" "ucast (drop_bit 24 (le32 a b c d)) = d"
    unfolding le32_def by (rule bit_word_eqI; auto simp: bit_simps dest: hi)+
  then show ?thesis by (simp add: bswap32_def)
qed

lemma swap_be_int_at:
  "swap_be h (int_at h d k) = be32 (d ! (4 * k)) (d ! (4 * k + 1)) (d ! (4 * k + 2)) (d ! (4 * k + 3))"
  by (cases h) (simp_all add: swap_be_def int_at_def Let_def bswap32_le32)

lemma strncmp_grAb: "strncmp grAb grAb 4 = Some 0"
  by (simp add: grAb_def eval_nat_numeral)

lemma chunkFn_grAb:
  assumes "name c = grAb" "data c = x0 # x1 # x2 # x3 # y0 # y1 # y2 # y3 # rest"
  shows "chunkFn h u c = (1, (be32 x0 x1 x2 x3, be32 y0 y1 y2 y3))"
  using assms by (simp add: chunkFn_def chunk_size_def strncmp_grAb swap_be_int_at)

lemma grAb_not_critical: "name c = grAb \<Longrightarrow> \<not> png_chunk_critical c"
  by (simp add: png_chunk_critical_def grAb_def bit_iff_odd)

text \<open>With a grAb chunk in front of the image data the offsets are its two
  big-endian values.\<close>

lemma load_offsets_grAb:
  assumes l: "load e s = (Inr im, ev)" and cs: "chunks_before_IDAT s = [c]"
    and c: "name c = grAb" "data c = x0 # x1 # x2 # x3 # y0 # y1 # y2 # y3 # rest"
  shows "offsets im = (be32 x0 x1 x2 x3, be32 y0 y1 y2 y3)"
  using load_decode_offsets[OF load_Inr_decode[OF l]] cs
  by (auto simp: png_read_info_def chunkFn_grAb[OF c] split: if_splits)

lemma be32_examples: "sint (be32 0x00 0x00 0x00 0x05) = 5" "sint (be32 0xFF 0xFF 0xFF 0xFD) = - 3"
  by (simp_all add: be32_def)

text \<open>A chunk with the bytes of 5 and -3 in front of the image data gives the
  offsets (5, -3); the same chunk after the image data comes too late, since
  \<^verbatim>\<open>retval.offsets(offsets)\<close> runs before \<^verbatim>\<open>png_read_image\<close> and \<^verbatim>\<open>png_read_end\<close>.\<close>

lemma load_grAb_example:
  "\<exists>im ev. load example_env (example_rgb\<lparr>chunks_before_IDAT := [example_grAb]\<rparr>) = (Inr im, ev)
     \<and> sint (fst (offsets im)) = 5 \<and> sint (snd (offsets im)) = - 3"
proof -
  let ?s = "example_rgb\<lparr>chunks_before_IDAT := [example_grAb]\<rparr>"
  have v: "png_valid ?s"
    by (simp add: example_defs validity_defs png_constants bit_iff_odd)
  have ct: "IHDR_color_type ?s = PNG_COLOR_TYPE_RGB \<or> IHDR_color_type ?s = PNG_COLOR_TYPE_RGB_ALPHA"
    by (simp add: example_defs)
  have c: "name example_grAb = grAb"
    "data example_grAb = 0x00 # 0x00 # 0x00 # 0x05 # 0xFF # 0xFF # 0xFF # 0xFD # []"
    by (simp_all add: example_grAb_def grAb_def)
  have "chunks_before_IDAT ?s = [example_grAb]" by simp
  then show ?thesis
    using load_decode_RGB[OF v ct, of example_env]
    by (simp add: load_returns chunkFn_grAb[OF c] be32_examples)
qed

lemma load_grAb_after_IDAT_example:
  "\<exists>im ev. load example_env (example_rgb\<lparr>chunks_after_IDAT := [example_grAb]\<rparr>) = (Inr im, ev)
     \<and> offsets im = (7, 9)"
proof -
  let ?s = "example_rgb\<lparr>chunks_after_IDAT := [example_grAb]\<rparr>"
  have v: "png_valid ?s"
    by (simp add: example_defs validity_defs png_constants bit_iff_odd)
  have ct: "IHDR_color_type ?s = PNG_COLOR_TYPE_RGB \<or> IHDR_color_type ?s = PNG_COLOR_TYPE_RGB_ALPHA"
    by (simp add: example_defs)
  show ?thesis
    using load_decode_RGB[OF v ct, of example_env]
    by (simp add: load_returns) (simp add: example_defs)
qed

text \<open>
  C1. With a grAb chunk of at least 8 bytes in front of the image data the offsets
  of the image are its two big-endian values (\<open>load_offsets_grAb\<close>, on a host of
  either byte order). Without the
  chunk they are not (0, 0) but whatever the stack held where \<^verbatim>\<open>int offsets[2]\<close>
  was placed, since the array is never initialised (\<open>load_offsets_no_chunk\<close>): with
  (7, 9) there, loading a PNG that has no grAb chunk gives the offsets (7, 9).
\<close>

theorem load_offsets_without_grAb:
  "fst (load example_env example_rgb) =
     Inr \<lparr>width = 2, height = 2, format = rgb,
          buffer = [1, 2, 3, 4, 5, 6, 7, 8, 9, 10, 11, 12],
          palette = default_palette example_env rgb, offsets = (7, 9)\<rparr>"
proof -
  have "load_decode example_env example_rgb =
     Inr \<lparr>width = 2, height = 2, format = rgb,
          buffer = [1, 2, 3, 4, 5, 6, 7, 8, 9, 10, 11, 12],
          palette = default_palette example_env rgb, offsets = (7, 9)\<rparr>"
    using load_decode_RGB[OF example_rgb_valid, of example_env]
    by (simp add: example_defs png_constants)
  then show ?thesis by (simp add: load_returns)
qed

subsection \<open>Grey images\<close>

text \<open>
  C2. A grey image with an alpha channel is returned as an rgba image whose colour
  channels repeat the grey sample (\<open>load_decode_GRAY_ALPHA\<close>). A grey image without
  an alpha channel is not returned as an rgb image: for it \<^verbatim>\<open>load\<close> requests
  \<^verbatim>\<open>png_set_expand\<close>, which leaves the colour type grey, and the switch on the
  colour type throws (\<open>load_GRAY_raises\<close>). Loading a single grey pixel of 8 bits
  raises the error ``Unknown PNG image color type: 0''.
\<close>

theorem load_grayscale_unknown_color_type:
  "load example_env example_gray =
     (Inl (image_load_error ''Unknown PNG image color type: 0''),
      [png_create_read_struct, png_create_info_struct])"
proof -
  have ct: "IHDR_color_type example_gray = PNG_COLOR_TYPE_GRAY"
    by (simp add: example_gray_def)
  have "png_read_info (chunkFn (host example_env)) (stack_offsets example_env) example_gray
        = Inr (stack_offsets example_env, stream_info example_gray)"
    by (simp add: png_read_info_def png_check_IHDR_def example_gray_def png_constants)
  moreover have "num_trans (stream_info example_gray) = 0"
    by (simp add: stream_info_def png_handle_tRNS_def example_gray_def)
  ultimately have "load_decode example_env example_gray
        = Inl (image_load_error ''Unknown PNG image color type: 0'')"
    using update_info_GRAY[of "stream_info example_gray"] ct
    by (simp add: load_decode_def Let_def load_format_def png_constants fmt_int_0)
  then show ?thesis by (simp add: load_throws)
qed

text \<open>The same pixel with an alpha sample is returned with the grey value in the
  three colour channels.\<close>

lemma load_gray_alpha_example:
  "fst (load example_env example_gray_alpha) =
     Inr \<lparr>width = 1, height = 1, format = rgba, buffer = [200, 200, 200, 17],
          palette = default_palette example_env rgba, offsets = (7, 9)\<rparr>"
proof -
  have "load_decode example_env example_gray_alpha =
     Inr \<lparr>width = 1, height = 1, format = rgba, buffer = [200, 200, 200, 17],
          palette = default_palette example_env rgba, offsets = (7, 9)\<rparr>"
    using load_decode_GRAY_ALPHA[OF example_gray_alpha_valid, of example_env]
    by (simp add: example_defs png_constants)
  then show ?thesis by (simp add: load_returns)
qed

subsection \<open>The bit depth of paletted images\<close>

text \<open>
  A paletted image of bit depth 4 does not raise the error about the bit depth:
  \<^verbatim>\<open>load\<close> returns it as an index8 image with one byte for every palette index.
\<close>

theorem load_pal4_returns_index8:
  "fst (load example_env example_pal4) =
     Inr \<lparr>width = 2, height = 1, format = index8, buffer = [1, 0],
          palette = \<lparr>pal_format = rgb,
             pal_entries = [\<lparr>red = 1, green = 2, blue = 3, alpha = 0xFF\<rparr>,
                            \<lparr>red = 4, green = 5, blue = 6, alpha = 0xFF\<rparr>]\<rparr>,
          offsets = (7, 9)\<rparr>"
proof -
  have ct: "IHDR_color_type example_pal4 = PNG_COLOR_TYPE_PALETTE"
    and tr: "tRNS example_pal4 = None"
    by (simp_all add: example_pal4_def)
  have pal: "load_palette ((stream_info example_pal4)\<lparr>bit_depth := 8\<rparr>)
                (new_Image example_env (IHDR_width example_pal4) (IHDR_height example_pal4) index8)
       = Inr ((new_Image example_env 2 1 index8)\<lparr>palette := \<lparr>pal_format = rgb,
             pal_entries = [\<lparr>red = 1, green = 2, blue = 3, alpha = 0xFF\<rparr>,
                            \<lparr>red = 4, green = 5, blue = 6, alpha = 0xFF\<rparr>]\<rparr>\<rparr>)"
    by (simp add: load_palette_no_tRNS[OF tr] new_Image_def)
       (simp add: example_defs)
  show ?thesis
    using load_decode_PALETTE[OF example_pal4_valid ct pal]
    by (simp add: load_returns) (simp add: example_defs new_Image_def)
qed

text \<open>
  C3, amended. \<^verbatim>\<open>load\<close> requests \<^verbatim>\<open>png_set_packing\<close>, so libpng reports the bit
  depth 8 for a paletted image of bit depth 1, 2 or 4. Every valid paletted
  datastream, whatever its bit depth, is returned as an index8 image of its width
  and height with one byte for every palette index (given that the palette step
  gets through: the datastream has a tRNS chunk, or a PLTE chunk at least as long as
  the palette of the new image). For no paletted datastream at all does \<^verbatim>\<open>load\<close>
  raise ``Invalid PNG bit depth''; the switch raises it exactly when the bit depth
  reported after \<^verbatim>\<open>png_read_update_info\<close> is not 8.
\<close>

theorem load_paletted_any_bit_depth:
  "(struct_alloc_ok e \<and> info_alloc_ok e \<and> png_valid s
      \<and> IHDR_color_type s = PNG_COLOR_TYPE_PALETTE
      \<and> (tRNS s \<noteq> None \<or> length (pal_entries (default_palette e index8)) \<le> length (PLTE s))
     \<longrightarrow> (\<exists>im ev. load e s = (Inr im, ev) \<and> format im = index8
            \<and> width im = IHDR_width s \<and> height im = IHDR_height s
            \<and> buffer im = concat (map (map of_nat) (rows s))))
   \<and> (IHDR_color_type s = PNG_COLOR_TYPE_PALETTE
     \<longrightarrow> fst (load e s) \<noteq> Inl (image_load_error (''Invalid PNG bit depth: '' @ m)))
   \<and> load_format PNG_COLOR_TYPE_PALETTE bd =
       (if bd = 8 then Inr index8
        else Inl (image_load_error (''Invalid PNG bit depth: '' @ fmt_int bd)))"
proof (intro conjI impI)
  assume a: "struct_alloc_ok e \<and> info_alloc_ok e \<and> png_valid s
      \<and> IHDR_color_type s = PNG_COLOR_TYPE_PALETTE
      \<and> (tRNS s \<noteq> None \<or> length (pal_entries (default_palette e index8)) \<le> length (PLTE s))"
  then have v: "png_valid s" and ct: "IHDR_color_type s = PNG_COLOR_TYPE_PALETTE" by simp_all
  let ?im = "new_Image e (IHDR_width s) (IHDR_height s) index8"
  have "\<exists>im0. load_palette ((stream_info s)\<lparr>bit_depth := 8\<rparr>) ?im = Inr im0"
  proof (cases "tRNS s")
    case None
    with a show ?thesis by (simp add: load_palette_no_tRNS new_Image_def)
  next
    case (Some t)
    then show ?thesis by (simp add: load_palette_tRNS[OF v ct])
  qed
  then obtain im0 where pal: "load_palette ((stream_info s)\<lparr>bit_depth := 8\<rparr>) ?im = Inr im0"
    by blast
  have im0: "format im0 = index8" "width im0 = IHDR_width s" "height im0 = IHDR_height s"
    using pal by (auto simp: load_palette_def new_Image_def split: if_splits sum.splits)
  show "\<exists>im ev. load e s = (Inr im, ev) \<and> format im = index8
            \<and> width im = IHDR_width s \<and> height im = IHDR_height s
            \<and> buffer im = concat (map (map of_nat) (rows s))"
    using a load_decode_PALETTE[OF v ct pal, of] im0
    by (simp add: load_returns)
next
  assume "IHDR_color_type s = PNG_COLOR_TYPE_PALETTE"
  then show "fst (load e s) \<noteq> Inl (image_load_error (''Invalid PNG bit depth: '' @ m))"
    by (rule load_PALETTE_never_bit_depth_error)
next
  show "load_format PNG_COLOR_TYPE_PALETTE bd =
       (if bd = 8 then Inr index8
        else Inl (image_load_error (''Invalid PNG bit depth: '' @ fmt_int bd)))"
    by (simp add: load_format_def png_constants)
qed

theorem load_paletted_any_bit_depth_witness:
  "IHDR_bit_depth example_pal4 = 4
   \<and> (\<exists>im ev. load example_env example_pal4 = (Inr im, ev) \<and> format im = index8
         \<and> width im = 2 \<and> height im = 1 \<and> buffer im = [1, 0])
   \<and> fst (load example_env example_pal4) \<noteq> Inl (image_load_error ''Invalid PNG bit depth: 4'')"
proof -
  have h: "struct_alloc_ok example_env \<and> info_alloc_ok example_env \<and> png_valid example_pal4
      \<and> IHDR_color_type example_pal4 = PNG_COLOR_TYPE_PALETTE
      \<and> (tRNS example_pal4 \<noteq> None
          \<or> length (pal_entries (default_palette example_env index8)) \<le> length (PLTE example_pal4))"
    using example_pal4_valid by (simp add: example_defs)
  have ct: "IHDR_color_type example_pal4 = PNG_COLOR_TYPE_PALETTE" by (simp add: example_defs)
  from load_paletted_any_bit_depth[of example_env example_pal4 "''4''", THEN conjunct1, rule_format, OF h]
       load_paletted_any_bit_depth[of example_env example_pal4 "''4''", THEN conjunct2, THEN conjunct1, rule_format, OF ct]
  show ?thesis by (simp add: example_defs)
qed

subsection \<open>The palette of a paletted image\<close>

text \<open>
  C4. For every valid 8-bit paletted datastream with a tRNS chunk (and succeeding
  allocations) \<^verbatim>\<open>load\<close> returns an image whose palette is a new palette of format
  rgba with as many entries as the PLTE chunk; entry \<open>k\<close> has the red, green and blue
  of PLTE entry \<open>k\<close>, and the alpha of tRNS entry \<open>k\<close> when the tRNS chunk has one and
  0xFF otherwise.
\<close>

theorem load_tRNS_palette:
  assumes "struct_alloc_ok e" "info_alloc_ok e" "png_valid s"
    and "IHDR_color_type s = PNG_COLOR_TYPE_PALETTE" "IHDR_bit_depth s = 8"
    and "tRNS s = Some t"
  shows "\<exists>im ev. load e s = (Inr im, ev)
           \<and> palette im =
               \<lparr>pal_format = rgba,
                pal_entries =
                  map (\<lambda>k. \<lparr>red = red (PLTE s ! k), green = green (PLTE s ! k),
                             blue = blue (PLTE s ! k),
                             alpha = (if k < length t then t ! k else 0xFF)\<rparr>)
                    [0..<length (PLTE s)]\<rparr>"
proof -
  let ?im = "new_Image e (IHDR_width s) (IHDR_height s) index8"
  note pal = load_palette_tRNS[OF assms(3,4,6), of ?im]
  show ?thesis
    using assms(1,2) load_decode_PALETTE[OF assms(3,4) pal, of]
    by (simp add: load_returns)
qed

theorem load_tRNS_palette_witness:
  "\<exists>im ev. load example_env example_pal8_tRNS = (Inr im, ev)
     \<and> palette im = \<lparr>pal_format = rgba,
          pal_entries = [\<lparr>red = 1, green = 2, blue = 3, alpha = 0x80\<rparr>,
                         \<lparr>red = 4, green = 5, blue = 6, alpha = 0xFF\<rparr>,
                         \<lparr>red = 7, green = 8, blue = 9, alpha = 0xFF\<rparr>]\<rparr>"
proof -
  have "IHDR_color_type example_pal8_tRNS = PNG_COLOR_TYPE_PALETTE"
       "IHDR_bit_depth example_pal8_tRNS = 8" "tRNS example_pal8_tRNS = Some [0x80]"
    by (simp_all add: example_defs)
  from load_tRNS_palette[OF example_env_allocs example_pal8_tRNS_valid this]
  show ?thesis by (simp add: example_defs numeral_3_eq_3)
qed

text \<open>
  C10. For every valid 8-bit paletted datastream without a tRNS chunk the copy loop
  runs over the entries of the new image's palette and reads one PLTE entry for
  each, from index 0 on, without a test against the number of PLTE entries: a
  palette of \<open>n\<close> entries reads the PLTE entries 0 to \<open>n - 1\<close>. When the palette of
  the new image is no longer than the PLTE chunk, \<^verbatim>\<open>load\<close> returns the image with the
  copied colours; when it is longer, the loop reads beyond the PLTE array.
\<close>

theorem load_PLTE_copy_unchecked:
  assumes "struct_alloc_ok e" "info_alloc_ok e" "png_valid s"
    and "IHDR_color_type s = PNG_COLOR_TYPE_PALETTE" "IHDR_bit_depth s = 8"
    and "tRNS s = None"
  shows "copy_PLTE (PLTE s) 0 cs =
           (if length cs \<le> length (PLTE s)
            then Inr (map (\<lambda>(c, p). c\<lparr>red := red p, green := green p, blue := blue p\<rparr>) (zip cs (PLTE s)))
            else Inl out_of_range)
       \<and> (length (pal_entries (default_palette e index8)) \<le> length (PLTE s) \<longrightarrow>
           (\<exists>im ev. load e s = (Inr im, ev)
              \<and> pal_entries (palette im) =
                  map (\<lambda>(c, p). c\<lparr>red := red p, green := green p, blue := blue p\<rparr>)
                    (zip (pal_entries (default_palette e index8)) (PLTE s))))
       \<and> (length (PLTE s) < length (pal_entries (default_palette e index8)) \<longrightarrow>
           fst (load e s) = Inl out_of_range)"
proof (intro conjI impI)
  show "copy_PLTE (PLTE s) 0 cs =
           (if length cs \<le> length (PLTE s)
            then Inr (map (\<lambda>(c, p). c\<lparr>red := red p, green := green p, blue := blue p\<rparr>) (zip cs (PLTE s)))
            else Inl out_of_range)"
    by (simp add: copy_PLTE_eq)
next
  let ?im = "new_Image e (IHDR_width s) (IHDR_height s) index8"
  assume le: "length (pal_entries (default_palette e index8)) \<le> length (PLTE s)"
  then have pal: "load_palette ((stream_info s)\<lparr>bit_depth := 8\<rparr>) ?im
      = Inr (?im\<lparr>palette := (palette ?im)\<lparr>pal_entries :=
               map (\<lambda>(c, p). c\<lparr>red := red p, green := green p, blue := blue p\<rparr>)
                 (zip (pal_entries (palette ?im)) (PLTE s))\<rparr>\<rparr>)"
    by (simp add: load_palette_no_tRNS[OF assms(6)] new_Image_def)
  show "\<exists>im ev. load e s = (Inr im, ev)
           \<and> pal_entries (palette im) =
               map (\<lambda>(c, p). c\<lparr>red := red p, green := green p, blue := blue p\<rparr>)
                 (zip (pal_entries (default_palette e index8)) (PLTE s))"
    using assms(1,2) load_decode_PALETTE[OF assms(3,4) pal]
    by (simp add: load_returns new_Image_def)
next
  let ?im = "new_Image e (IHDR_width s) (IHDR_height s) index8"
  assume gt: "length (PLTE s) < length (pal_entries (default_palette e index8))"
  then have pal: "load_palette ((stream_info s)\<lparr>bit_depth := 8\<rparr>) ?im = Inl out_of_range"
    by (simp add: load_palette_no_tRNS[OF assms(6)] new_Image_def)
  have ng: "color_type (stream_info s) \<noteq> PNG_COLOR_TYPE_GRAY"
           "color_type (stream_info s) \<noteq> PNG_COLOR_TYPE_GRAY_ALPHA"
    using assms(4) by (auto simp: png_constants)
  have bd: "bit_depth (stream_info s) = 1 \<or> bit_depth (stream_info s) = 2 \<or> bit_depth (stream_info s) = 4
      \<or> bit_depth (stream_info s) = 8 \<or> bit_depth (stream_info s) = 16"
    using assms(5) by simp
  note upd = update_info_plain[OF ng bd]
  have "load_decode e s = Inl out_of_range"
    using assms(4) pal
    by (simp add: load_decode_def Let_def png_read_info_valid[OF assms(3)] upd load_format_def png_constants)
  then show "fst (load e s) = Inl out_of_range"
    using assms(1,2) by (simp add: load_throws)
qed

theorem load_PLTE_copy_unchecked_witness:
  "fst (load example_env example_pal8_short) = Inl out_of_range
   \<and> length (PLTE example_pal8_short) = 1
   \<and> length (pal_entries (default_palette example_env index8)) = 2
   \<and> (\<exists>im ev. load example_env (example_pal8_tRNS\<lparr>tRNS := None\<rparr>) = (Inr im, ev)
        \<and> pal_entries (palette im) = [\<lparr>red = 1, green = 2, blue = 3, alpha = 0xFF\<rparr>,
                                       \<lparr>red = 4, green = 5, blue = 6, alpha = 0xFF\<rparr>])"
proof -
  have h: "IHDR_color_type example_pal8_short = PNG_COLOR_TYPE_PALETTE"
       "IHDR_bit_depth example_pal8_short = 8" "tRNS example_pal8_short = None"
    by (simp_all add: example_defs)
  have lt: "length (PLTE example_pal8_short) < length (pal_entries (default_palette example_env index8))"
    by (simp add: example_defs)
  let ?s = "example_pal8_tRNS\<lparr>tRNS := None\<rparr>"
  have v': "png_valid ?s"
    by (simp add: example_defs validity_defs png_constants)
  have h': "IHDR_color_type ?s = PNG_COLOR_TYPE_PALETTE" "IHDR_bit_depth ?s = 8" "tRNS ?s = None"
    by (simp_all add: example_defs)
  have le: "length (pal_entries (default_palette example_env index8)) \<le> length (PLTE ?s)"
    by (simp add: example_defs)
  from load_PLTE_copy_unchecked[OF example_env_allocs example_pal8_short_valid h, of "[]",
         THEN conjunct2, THEN conjunct2, rule_format, OF lt]
  have 1: "fst (load example_env example_pal8_short) = Inl out_of_range" .
  from load_PLTE_copy_unchecked[OF example_env_allocs v' h', of "[]",
         THEN conjunct2, THEN conjunct1, rule_format, OF le]
  have 2: "\<exists>im ev. load example_env ?s = (Inr im, ev)
        \<and> pal_entries (palette im) = [\<lparr>red = 1, green = 2, blue = 3, alpha = 0xFF\<rparr>,
                                       \<lparr>red = 4, green = 5, blue = 6, alpha = 0xFF\<rparr>]"
    by (simp add: example_defs)
  from 1 2 show ?thesis by (simp add: example_defs)
qed

subsection \<open>\<^verbatim>\<open>save\<close>\<close>

lemma save_format_in:
  "f = rgb \<or> f = bgr \<or> f = rgba \<or> f = bgra \<Longrightarrow>
   save_format f = Inr (if f = rgb \<or> f = bgr then PNG_COLOR_TYPE_RGB else PNG_COLOR_TYPE_RGB_ALPHA)"
  by auto

lemma save_format_other:
  "f \<noteq> rgb \<Longrightarrow> f \<noteq> bgr \<Longrightarrow> f \<noteq> rgba \<Longrightarrow> f \<noteq> bgra \<Longrightarrow>
   save_format f = Inl (image_save_error ''Saving image with incompatible pixel format'')"
  by (cases f) auto

lemma fetch_rows_error: "fetch_rows buf n ps = Inl err \<Longrightarrow> err = out_of_range"
  by (induction ps arbitrary: err) (auto split: if_splits sum.splits)

lemma save_encode_error:
  assumes "save_format (format im) = Inr ct" "save_encode im = Inl err"
  shows "err = png_error \<or> err = out_of_range"
  using assms
  by (auto simp: save_encode_def png_set_IHDR_def png_write_image_def Let_def
           split: if_splits sum.splits dest: fetch_rows_error)

text \<open>
  C5. \<^verbatim>\<open>save\<close> maps rgb and bgr to the colour type RGB, rgba and bgra to RGB with
  alpha. For an image of any other format (index8 among them) it raises the save
  error about an incompatible pixel format, once libpng's two allocations have
  succeeded. For an image in one of the four formats it never raises that error,
  and when the allocations succeed and the image is valid and not empty it raises
  no error at all.
\<close>

theorem save_pixel_formats:
  "save_format rgb = Inr PNG_COLOR_TYPE_RGB \<and> save_format bgr = Inr PNG_COLOR_TYPE_RGB
   \<and> save_format rgba = Inr PNG_COLOR_TYPE_RGB_ALPHA \<and> save_format bgra = Inr PNG_COLOR_TYPE_RGB_ALPHA
   \<and> (struct_alloc_ok e \<and> info_alloc_ok e
        \<and> format im \<noteq> rgb \<and> format im \<noteq> bgr \<and> format im \<noteq> rgba \<and> format im \<noteq> bgra
       \<longrightarrow> fst (save e im) = Inl (image_save_error ''Saving image with incompatible pixel format''))
   \<and> (format im = rgb \<or> format im = bgr \<or> format im = rgba \<or> format im = bgra
       \<longrightarrow> fst (save e im) \<noteq> Inl (image_save_error ''Saving image with incompatible pixel format''))
   \<and> (struct_alloc_ok e \<and> info_alloc_ok e \<and> valid_image im
        \<and> (format im = rgb \<or> format im = bgr \<or> format im = rgba \<or> format im = bgra)
       \<longrightarrow> (\<exists>s. fst (save e im) = Inr s))"
proof (intro conjI impI)
  assume a: "struct_alloc_ok e \<and> info_alloc_ok e
        \<and> format im \<noteq> rgb \<and> format im \<noteq> bgr \<and> format im \<noteq> rgba \<and> format im \<noteq> bgra"
  then have "save_encode im = Inl (image_save_error ''Saving image with incompatible pixel format'')"
    by (simp add: save_encode_def save_format_other)
  with a show "fst (save e im) = Inl (image_save_error ''Saving image with incompatible pixel format'')"
    by (simp add: save_def)
next
  assume f: "format im = rgb \<or> format im = bgr \<or> format im = rgba \<or> format im = bgra"
  note sf = save_format_in[OF f]
  show "fst (save e im) \<noteq> Inl (image_save_error ''Saving image with incompatible pixel format'')"
  proof (cases "save_encode im")
    case (Inl err)
    with save_encode_error[OF sf Inl] show ?thesis by (auto simp: save_def)
  next
    case (Inr s)
    then show ?thesis by (simp add: save_def)
  qed
next
  assume a: "struct_alloc_ok e \<and> info_alloc_ok e \<and> valid_image im
        \<and> (format im = rgb \<or> format im = bgr \<or> format im = rgba \<or> format im = bgra)"
  then have f: "format im = rgb \<or> format im = bgr \<or> format im = rgba \<or> format im = bgra"
    and v: "valid_image im" by simp_all
  from save_encode_valid[OF v save_format_in[OF f]] a
  show "\<exists>s. fst (save e im) = Inr s" by (simp add: save_returns)
qed simp_all

theorem save_pixel_formats_witness:
  "fst (save example_env (example_image index8 [0, 1]))
     = Inl (image_save_error ''Saving image with incompatible pixel format'')
   \<and> (\<exists>s. fst (save example_env (example_image rgb [1, 2, 3, 4, 5, 6])) = Inr s)
   \<and> fst (save example_env (example_image bgra [1, 2, 3, 4, 5, 6, 7, 8]))
       \<noteq> Inl (image_save_error ''Saving image with incompatible pixel format'')"
proof -
  have v: "valid_image (example_image rgb [1, 2, 3, 4, 5, 6])"
    by (simp add: example_image_def valid_image_def png_constants)
  from save_pixel_formats[of example_env "example_image index8 [0, 1]"]
       save_pixel_formats[of example_env "example_image rgb [1, 2, 3, 4, 5, 6]"]
       save_pixel_formats[of example_env "example_image bgra [1, 2, 3, 4, 5, 6, 7, 8]"]
       v
  show ?thesis by (simp add: example_image_def)
qed

text \<open>
  C9. For every valid image in rgb, bgr, rgba or bgra (and succeeding allocations)
  the datastream \<^verbatim>\<open>save\<close> writes has the width and height of the image, bit depth
  8, the mapped colour type and no interlacing; row \<open>k\<close> holds the bytes of row \<open>k\<close>
  of the image's buffer in their order, so that the rows together are the buffer;
  and the datastream has no grAb chunk, nor any other chunk libpng does not know.
\<close>

theorem save_header_and_rows:
  assumes "struct_alloc_ok e" "info_alloc_ok e" "valid_image im"
    and "format im = rgb \<or> format im = bgr \<or> format im = rgba \<or> format im = bgra"
  shows "\<exists>s ev. save e im = (Inr s, ev)
     \<and> IHDR_width s = width im \<and> IHDR_height s = height im \<and> IHDR_bit_depth s = 8
     \<and> IHDR_color_type s = (if format im = rgb \<or> format im = bgr then PNG_COLOR_TYPE_RGB
                              else PNG_COLOR_TYPE_RGB_ALPHA)
     \<and> IHDR_interlace s = PNG_INTERLACE_NONE
     \<and> rows s = map (\<lambda>k. map unat (take (width im * bytes_per_pixel (format im))
                                   (drop (k * (width im * bytes_per_pixel (format im))) (buffer im))))
                   [0..<height im]
     \<and> concat (map (map of_nat) (rows s)) = buffer im
     \<and> chunks_before_IDAT s = [] \<and> chunks_after_IDAT s = [] \<and> PLTE s = [] \<and> tRNS s = None"
  using assms(1,2) save_encode_valid[OF assms(3) save_format_in[OF assms(4)]]
        roundtrip_buffer[OF assms(3)]
  by (simp add: save_returns)

theorem save_header_and_rows_witness:
  "\<exists>s ev. save example_env (example_image bgra [1, 2, 3, 4, 5, 6, 7, 8]) = (Inr s, ev)
     \<and> IHDR_width s = 2 \<and> IHDR_height s = 1 \<and> IHDR_bit_depth s = 8
     \<and> IHDR_color_type s = PNG_COLOR_TYPE_RGB_ALPHA \<and> IHDR_interlace s = PNG_INTERLACE_NONE
     \<and> rows s = [[1, 2, 3, 4, 5, 6, 7, 8]]
     \<and> chunks_before_IDAT s = [] \<and> chunks_after_IDAT s = []"
proof -
  have v: "valid_image (example_image bgra [1, 2, 3, 4, 5, 6, 7, 8])"
    by (simp add: example_image_def valid_image_def png_constants)
  have f: "format (example_image bgra [1, 2, 3, 4, 5, 6, 7, 8]) = rgb
         \<or> format (example_image bgra [1, 2, 3, 4, 5, 6, 7, 8]) = bgr
         \<or> format (example_image bgra [1, 2, 3, 4, 5, 6, 7, 8]) = rgba
         \<or> format (example_image bgra [1, 2, 3, 4, 5, 6, 7, 8]) = bgra"
    by (simp add: example_image_def)
  from save_header_and_rows[OF example_env_allocs v f]
  show ?thesis by (auto simp: example_image_def)
qed

subsection \<open>Saving and loading again\<close>

text \<open>
  C7. For every valid image of format rgb or rgba with at least one row and one
  column, \<^verbatim>\<open>load\<close> of the datastream that \<^verbatim>\<open>save\<close> writes returns an image of the
  same width, height, format and buffer content (in environments whose allocations
  succeed). The offsets are not kept: the loaded image has those of C1.
\<close>

theorem save_load_roundtrip:
  assumes "struct_alloc_ok e" "info_alloc_ok e" "struct_alloc_ok e'" "info_alloc_ok e'"
    and v: "valid_image im" and f: "format im = rgb \<or> format im = rgba"
  shows "\<exists>s ev im' ev'. save e im = (Inr s, ev) \<and> load e' s = (Inr im', ev')
           \<and> width im' = width im \<and> height im' = height im
           \<and> format im' = format im \<and> buffer im' = buffer im"
proof -
  let ?ct = "if format im = rgb then PNG_COLOR_TYPE_RGB else PNG_COLOR_TYPE_RGB_ALPHA"
  have sf: "save_format (format im) = Inr ?ct" using f by auto
  note enc = save_encode_valid[OF v sf]
  let ?s = "\<lparr>IHDR_width = width im, IHDR_height = height im, IHDR_bit_depth = 8,
      IHDR_color_type = ?ct, IHDR_interlace = PNG_INTERLACE_NONE,
      PLTE = [], tRNS = None, chunks_before_IDAT = [],
      rows = map (\<lambda>k. map unat (take (width im * bytes_per_pixel (format im))
                                   (drop (k * (width im * bytes_per_pixel (format im))) (buffer im))))
               [0..<height im],
      chunks_after_IDAT = []\<rparr>"
  have sv: "png_valid ?s" by (rule saved_stream_valid[OF v sf enc])
  have ct: "IHDR_color_type ?s = PNG_COLOR_TYPE_RGB \<or> IHDR_color_type ?s = PNG_COLOR_TYPE_RGB_ALPHA"
    by simp
  have dec: "load_decode e' ?s = Inr
     \<lparr>width = width im, height = height im, format = format im, buffer = buffer im,
      palette = default_palette e' (format im), offsets = stack_offsets e'\<rparr>"
    using f roundtrip_buffer[OF v]
    by (subst load_decode_RGB[OF sv ct]) (auto simp: png_constants)
  show ?thesis
    using assms(1-4) by (simp add: save_returns[OF _ _ enc] load_returns[OF _ _ dec])
qed

theorem save_load_roundtrip_witness:
  "\<exists>s ev im' ev'. save example_env (example_image rgb [1, 2, 3, 4, 5, 6]) = (Inr s, ev)
      \<and> load example_env s = (Inr im', ev')
      \<and> width im' = 2 \<and> height im' = 1 \<and> format im' = rgb \<and> buffer im' = [1, 2, 3, 4, 5, 6]"
proof -
  have v: "valid_image (example_image rgb [1, 2, 3, 4, 5, 6])"
    by (simp add: example_image_def valid_image_def png_constants)
  have f: "format (example_image rgb [1, 2, 3, 4, 5, 6]) = rgb
         \<or> format (example_image rgb [1, 2, 3, 4, 5, 6]) = rgba"
    by (simp add: example_image_def)
  from save_load_roundtrip[OF example_env_allocs example_env_allocs v f]
  show ?thesis by (simp add: example_image_def)
qed

subsection \<open>libpng's handles\<close>

lemma load_returns_events:
  "load e s = (Inr im, ev) \<Longrightarrow> ev = [png_create_read_struct, png_create_info_struct]"
  by (auto simp: load_def split: if_splits sum.splits error.splits)

lemma load_returns_leaks:
  "load e s = (Inr im, ev) \<Longrightarrow> \<not> released_exactly_once ev"
  by (drule load_returns_events) (simp add: released_exactly_once_def)

lemma load_longjmp_releases:
  "struct_alloc_ok e \<Longrightarrow> info_alloc_ok e \<Longrightarrow> load_decode e s = Inl png_error \<Longrightarrow>
   released_exactly_once (snd (load e s))"
  by (simp add: load_longjmp released_exactly_once_def)

lemma save_returns_releases:
  "save e im = (Inr s, ev) \<Longrightarrow> released_exactly_once ev"
  by (auto simp: save_def released_exactly_once_def split: if_splits sum.splits error.splits)

text \<open>
  C8. Not every exit releases the handles. \<^verbatim>\<open>save\<close> releases them when it returns
  (\<open>save_returns_releases\<close>) and both functions release them in the \<^verbatim>\<open>setjmp\<close>
  branch (\<open>load_longjmp_releases\<close>), but \<^verbatim>\<open>load\<close> has no
  \<^verbatim>\<open>png_destroy_read_struct\<close> before \<^verbatim>\<open>return retval\<close> (\<open>load_returns_leaks\<close>), and
  neither function releases anything before the errors it throws itself: a load
  that returns, a load that throws for the colour type, and a save that throws for
  the pixel format each end with the read or write struct and the info structure
  acquired and not released.
\<close>

theorem handles_not_released:
  "snd (load example_env example_rgb) = [png_create_read_struct, png_create_info_struct]
   \<and> \<not> released_exactly_once (snd (load example_env example_rgb))
   \<and> snd (load example_env example_gray) = [png_create_read_struct, png_create_info_struct]
   \<and> \<not> released_exactly_once (snd (load example_env example_gray))
   \<and> snd (save example_env (example_image index8 [0, 1]))
        = [png_create_write_struct, png_create_info_struct]
   \<and> \<not> released_exactly_once (snd (save example_env (example_image index8 [0, 1])))"
proof -
  have 1: "snd (load example_env example_rgb) = [png_create_read_struct, png_create_info_struct]"
    using load_decode_RGB[OF example_rgb_valid, of example_env]
    by (simp add: load_returns example_rgb_def)
  have "load_decode example_env example_gray \<noteq> Inl png_error"
    by (simp add: load_decode_def Let_def png_read_info_def png_check_IHDR_def example_gray_def
         png_constants load_format_def update_info_GRAY stream_info_def png_handle_tRNS_def)
  with load_GRAY_raises[of example_gray example_env]
  have 2: "snd (load example_env example_gray) = [png_create_read_struct, png_create_info_struct]"
    by (auto simp: load_throws example_gray_def)
  have 3: "snd (save example_env (example_image index8 [0, 1]))
        = [png_create_write_struct, png_create_info_struct]"
    by (simp add: save_def save_encode_def example_image_def)
  show ?thesis by (simp add: 1 2 3 released_exactly_once_def)
qed

end
